theory Spec2Isabelle
  imports Complex_Main "HOL-Library.Word"
begin

section \<open>Boxes and the history of boxes (ApplicationSection)\<close>

text \<open>
  The signing page keeps one rectangle, the signature box, in coordinates that are
  fractions of a page. JavaScript numbers are modelled as real numbers: rounding of the
  doubles, NaN and the infinities are outside the model, and every place where the source
  divides is guarded so that a zero divisor shows up as \<open>None\<close> instead of the
  arbitrary value HOL would give.
\<close>

record SignatureBox =
  box_x :: real
  box_y :: real
  box_width :: real
  box_height :: real

text \<open>
  \<open>signatureBoxState\<close>: the array of boxes and the index of the current one. A
  JavaScript array can have holes (a write beyond its length leaves them), so an entry is
  an option and \<open>None\<close> is a hole.
\<close>

record SignatureBoxState =
  history :: "SignatureBox option list"
  index :: int

text \<open>\<open>xs.slice(0, e)\<close>: a negative end counts from the end of the array.\<close>

definition slice0 :: "'a list \<Rightarrow> int \<Rightarrow> 'a list" where
  "slice0 xs e = (if e < 0 then take (nat (int (length xs) + e)) xs else take (nat e) xs)"

text \<open>\<open>xs[i] = v\<close> for \<open>i \<ge> 0\<close>: beyond the end the array grows, with holes.\<close>

definition assignAt :: "'a option list \<Rightarrow> nat \<Rightarrow> 'a \<Rightarrow> 'a option list" where
  "assignAt xs i v =
     (if i < length xs then xs[i := Some v]
      else xs @ replicate (i - length xs) None @ [Some v])"

text \<open>\<open>currentSignatureBox\<close>: \<open>history[index] || null\<close>, and null for a negative index.\<close>

definition currentSignatureBox :: "SignatureBoxState \<Rightarrow> SignatureBox option" where
  "currentSignatureBox st =
     (if index st < 0 then None
      else if nat (index st) < length (history st) then history st ! nat (index st)
      else None)"

text \<open>
  The state update of \<open>updateSignatureBox(box, pushHistory)\<close>. With \<open>pushHistory\<close> the
  entries after the index are cut off and the box is appended; without it the entry at
  the index is overwritten in place.
\<close>

definition updateSignatureBox ::
  "SignatureBox option \<Rightarrow> bool \<Rightarrow> SignatureBoxState \<Rightarrow> SignatureBoxState" where
  "updateSignatureBox box pushHistory prev =
     (case box of
        None \<Rightarrow> \<lparr>history = [], index = -1\<rparr>
      | Some b \<Rightarrow>
          let normalizedBox =
                \<lparr>box_x = box_x b, box_y = box_y b, box_width = box_width b,
                 box_height = box_height b\<rparr>
          in if pushHistory then
               let truncated = slice0 (history prev) (index prev + 1) @ [Some normalizedBox]
               in \<lparr>history = truncated, index = int (length truncated) - 1\<rparr>
             else if length (history prev) = 0 \<or> index prev < 0 then
               \<lparr>history = [Some normalizedBox], index = 0\<rparr>
             else
               \<lparr>history = assignAt (history prev) (nat (index prev)) normalizedBox,
                index = index prev\<rparr>)"

text \<open>
  Modelled from the spec: undo. The source has no undo and no redo (a comment in
  ApplicationSection records that the handlers were removed). The specification words
  them as pure index moves: undo moves the index back one and does nothing at index 0.
\<close>

definition undo :: "SignatureBoxState \<Rightarrow> SignatureBoxState" where
  "undo st = (if 0 < index st then st\<lparr>index := index st - 1\<rparr> else st)"

text \<open>
  Modelled from the spec: redo, absent from the source like undo; it moves the index
  forward one and does nothing at the tail.
\<close>

definition redo :: "SignatureBoxState \<Rightarrow> SignatureBoxState" where
  "redo st = (if index st + 1 < int (length (history st)) then st\<lparr>index := index st + 1\<rparr> else st)"

section \<open>Files and the PDF library\<close>

type_synonym bytes = "8 word list"

record File =
  file_name :: string
  file_type :: string
  file_size :: nat

text \<open>\<open>s.includes(sub)\<close>, \<open>s.endsWith(ext)\<close> and \<open>s.toLowerCase()\<close> on ASCII letters.\<close>

fun str_includes :: "string \<Rightarrow> string \<Rightarrow> bool" where
  "str_includes [] sub = (sub = [])"
| "str_includes (c # cs) sub = (take (length sub) (c # cs) = sub \<or> str_includes cs sub)"

definition endsWith :: "string \<Rightarrow> string \<Rightarrow> bool" where
  "endsWith s ext = (length ext \<le> length s \<and> drop (length s - length ext) s = ext)"

definition toLowerCase :: "string \<Rightarrow> string" where
  "toLowerCase s =
     map (\<lambda>c. case map_of (zip ''ABCDEFGHIJKLMNOPQRSTUVWXYZ'' ''abcdefghijklmnopqrstuvwxyz'') c of
                 Some l \<Rightarrow> l
               | None \<Rightarrow> c) s"

text \<open>
  \<open>validateImage\<close> of SignatureUpload: the message shown, or \<open>None\<close> for an accepted
  file. A file is turned away for its format only when both its declared type and its
  name's ending are outside the lists.
\<close>

definition validateImage :: "File \<Rightarrow> string option" where
  "validateImage file =
     (if file_type file \<notin> set [''image/png'', ''image/jpeg'', ''image/jpg'']
         \<and> list_ex (\<lambda>ext. endsWith (toLowerCase (file_name file)) ext) [''.png'', ''.jpg'', ''.jpeg'']
           = False
      then Some ''Please select a PNG or JPEG image file only.''
      else if file_size file > 5 * 1024 * 1024 then Some ''Image size must be less than 5MB.''
      else if file_size file < 1024
        then Some ''Image seems too small. Please check if it's a valid image.''
      else None)"

text \<open>
  The document object of pdf-lib, as far as the signing code uses it: pages with a size,
  and on each page the images drawn so far with the options of each call.
\<close>

datatype ImageFormat = PNG | JPEG

record PDFImage =
  image_format :: ImageFormat
  image_bytes :: bytes

record DrawImageOptions =
  opt_x :: real
  opt_y :: real
  opt_width :: real
  opt_height :: real

record PDFPage =
  page_width :: real
  page_height :: real
  page_drawn :: "(PDFImage \<times> DrawImageOptions) list"

record PDFDocument =
  doc_pages :: "PDFPage list"

text \<open>
  What lies outside the component is a parameter: reading a file, the calls into pdf-lib
  and the request to the server. Each returns \<open>Inl message\<close> where the JavaScript call
  throws or rejects (an empty message stands for a thrown value without one).
\<close>

record Env =
  arrayBuffer :: "File \<Rightarrow> string + bytes"
  load :: "bytes \<Rightarrow> string + PDFDocument"
  embedPng :: "bytes \<Rightarrow> string + PDFImage"
  embedJpg :: "bytes \<Rightarrow> string + PDFImage"
  drawImageThrows :: "PDFPage \<Rightarrow> PDFImage \<Rightarrow> DrawImageOptions \<Rightarrow> string option"
  save :: "PDFDocument \<Rightarrow> string + bytes"
  signPDF :: "string \<Rightarrow> string \<Rightarrow> string + string"

text \<open>\<open>page.drawImage(image, options)\<close>: the page records the call, unless the library throws.\<close>

definition drawImage ::
  "Env \<Rightarrow> PDFPage \<Rightarrow> PDFImage \<Rightarrow> DrawImageOptions \<Rightarrow> string + PDFPage" where
  "drawImage env page img options =
     (case drawImageThrows env page img options of
        Some msg \<Rightarrow> Inl msg
      | None \<Rightarrow> Inr (page\<lparr>page_drawn := page_drawn page @ [(img, options)]\<rparr>))"

section \<open>Stamping (handleSignPdf)\<close>

text \<open>
  The body of the loop over the pages: the rectangle in page space, with the origin moved
  from the top left of the preview to the bottom left of the page.
\<close>

definition pageRect :: "SignatureBox \<Rightarrow> PDFPage \<Rightarrow> DrawImageOptions" where
  "pageRect box page =
     (let pageWidth = page_width page;
          pageHeight = page_height page;
          drawWidth = box_width box * pageWidth;
          drawHeight = box_height box * pageHeight;
          topY = box_y box * pageHeight;
          leftX = box_x box * pageWidth;
          drawX = leftX;
          drawY = pageHeight - topY - drawHeight
      in \<lparr>opt_x = drawX, opt_y = drawY, opt_width = drawWidth, opt_height = drawHeight\<rparr>)"

fun stampPages ::
  "Env \<Rightarrow> PDFImage \<Rightarrow> SignatureBox \<Rightarrow> PDFPage list \<Rightarrow> string + PDFPage list" where
  "stampPages env sigImage box [] = Inr []"
| "stampPages env sigImage box (page # rest) =
     (case drawImage env page sigImage (pageRect box page) of
        Inl msg \<Rightarrow> Inl msg
      | Inr page' \<Rightarrow>
          (case stampPages env sigImage box rest of
             Inl msg \<Rightarrow> Inl msg
           | Inr rest' \<Rightarrow> Inr (page' # rest')))"

text \<open>
  The first lines of the \<open>try\<close> block: both files are read, the document is parsed and
  the image embedded, as PNG when the declared type of the file contains \<open>png\<close> and as
  JPEG in every other case.
\<close>

definition readAndEmbed :: "Env \<Rightarrow> File \<Rightarrow> File \<Rightarrow> string + (PDFDocument \<times> PDFImage)" where
  "readAndEmbed env uploadedPdf uploadedSignature =
     (case arrayBuffer env uploadedPdf of
        Inl msg \<Rightarrow> Inl msg
      | Inr pdfBytes \<Rightarrow>
     (case arrayBuffer env uploadedSignature of
        Inl msg \<Rightarrow> Inl msg
      | Inr sigBytes \<Rightarrow>
     (case load env pdfBytes of
        Inl msg \<Rightarrow> Inl msg
      | Inr pdfDoc \<Rightarrow>
     (let isPng = str_includes (file_type uploadedSignature) ''png''
      in case (if isPng then embedPng env sigBytes else embedJpg env sigBytes) of
           Inl msg \<Rightarrow> Inl msg
         | Inr sigImage \<Rightarrow> Inr (pdfDoc, sigImage)))))"

datatype Step = Upload | Signature | Preview | Signing | Complete

datatype DragMode = Move | Resize

record DragState =
  drag_mode :: "DragMode option"
  drag_pointerId :: "int option"
  drag_startX :: real
  drag_startY :: real
  drag_startBox :: "SignatureBox option"

text \<open>
  The state of the page: the \<open>useState\<close> values of ApplicationSection, the
  \<open>dragStateRef\<close> of the preview it renders, and the error messages handed to the toast
  provider. An object URL is identified with what it names. Left out are the zoom, the
  position of the marker (\<open>signaturePosition\<close>), and the loading and success toasts:
  nothing below reads them.
\<close>

record UiState =
  currentStep :: Step
  uploadedPdf :: "File option"
  uploadedSignature :: "File option"
  documentId :: "string option"
  signatureId :: "string option"
  signedPdfUrl :: "bytes option"
  signedDocumentId :: "string option"
  signedBlob :: "bytes option"
  signingProgress :: nat
  error :: "string option"
  isSigning :: bool
  placementMode :: bool
  signaturePreviewUrl :: "File option"
  signatureBoxState :: SignatureBoxState
  hasSignedOnce :: bool
  dragStateRef :: "DragState option"
  errorToasts :: "string list"

text \<open>\<open>!v\<close> for a string or null: null and the empty string are falsy.\<close>

definition falsy :: "string option \<Rightarrow> bool" where
  "falsy v = (v = None \<or> v = Some [])"

definition showError :: "string \<Rightarrow> UiState \<Rightarrow> UiState" where
  "showError msg s = s\<lparr>errorToasts := errorToasts s @ [msg]\<rparr>"

definition handlePdfUpload :: "File \<Rightarrow> string \<Rightarrow> UiState \<Rightarrow> UiState" where
  "handlePdfUpload file docId s =
     s\<lparr>uploadedPdf := Some file, documentId := Some docId, currentStep := Signature,
       error := None, signedPdfUrl := None, signedBlob := None, signedDocumentId := None,
       hasSignedOnce := False\<rparr>"

text \<open>
  \<open>Number(v.toFixed(4))\<close>: four decimals, a tie rounded away from zero; from \<open>10^21\<close> on
  \<open>toFixed\<close> prints the number itself.
\<close>

definition toFixed4 :: "real \<Rightarrow> real" where
  "toFixed4 v =
     (if 10 ^ 21 \<le> \<bar>v\<bar> then v
      else if v < 0 then - (of_int \<lfloor>(- v) * 10000 + 1 / 2\<rfloor> / 10000)
      else of_int \<lfloor>v * 10000 + 1 / 2\<rfloor> / 10000)"

definition handleSignatureUpload :: "File \<Rightarrow> string \<Rightarrow> UiState \<Rightarrow> UiState" where
  "handleSignatureUpload file sigId s =
     (let defaultWidth = 0.25 :: real;
          defaultHeight = 0.12 :: real;
          defaultBox =
            \<lparr>box_x = toFixed4 ((1 - defaultWidth) / 2),
             box_y = toFixed4 ((1 - defaultHeight) / 2),
             box_width = toFixed4 defaultWidth,
             box_height = toFixed4 defaultHeight\<rparr>
      in s\<lparr>uploadedSignature := Some file, signatureId := Some sigId, error := None,
           currentStep := Preview, placementMode := True, signedPdfUrl := None,
           signedBlob := None, signedDocumentId := None, hasSignedOnce := False,
           signaturePreviewUrl := Some file,
           signatureBoxState := \<lparr>history = [Some defaultBox], index = 0\<rparr>\<rparr>)"

text \<open>
  The \<open>try\<close> block of \<open>handleSignPdf\<close>: the message of what was thrown, if anything,
  and the state at that point. The progress is set between the stages, the blob and
  its URL only after \<open>save\<close> has returned, and a failure of the request to the server
  is logged and otherwise ignored.
\<close>

definition signTry ::
  "Env \<Rightarrow> File \<Rightarrow> File \<Rightarrow> string \<Rightarrow> string \<Rightarrow> UiState \<Rightarrow> string option \<times> UiState" where
  "signTry env pdfFile sigFile docId sigId s0 =
     (let s1 = s0\<lparr>signingProgress := 10\<rparr>
      in case readAndEmbed env pdfFile sigFile of
           Inl msg \<Rightarrow> (Some msg, s1)
         | Inr (pdfDoc, sigImage) \<Rightarrow>
     (let s2 = s1\<lparr>signingProgress := 45\<rparr>
      in case currentSignatureBox (signatureBoxState s0) of
           None \<Rightarrow> (Some ''Signature position is not set.'', s2)
         | Some box \<Rightarrow>
     (case stampPages env sigImage box (doc_pages pdfDoc) of
        Inl msg \<Rightarrow> (Some msg, s2)
      | Inr pages' \<Rightarrow>
     (let s3 = s2\<lparr>signingProgress := 80\<rparr>
      in case save env (pdfDoc\<lparr>doc_pages := pages'\<rparr>) of
           Inl msg \<Rightarrow> (Some msg, s3)
         | Inr stampedBytes \<Rightarrow>
     (let s4 = s3\<lparr>signedBlob := Some stampedBytes, signedPdfUrl := Some stampedBytes\<rparr>;
          s5 = (case signPDF env docId sigId of
                  Inl apiErr \<Rightarrow> s4
                | Inr signedDocId \<Rightarrow> s4\<lparr>signedDocumentId := Some signedDocId\<rparr>)
      in (None, s5\<lparr>signingProgress := 100, currentStep := Complete\<rparr>))))))"

text \<open>
  The values \<open>handleSignPdf\<close> needs before it starts: both identifiers non-empty, both
  files and a current box.
\<close>

definition signInputs :: "UiState \<Rightarrow> (string \<times> string \<times> File \<times> File) option" where
  "signInputs s =
     (if falsy (documentId s) \<or> falsy (signatureId s) then None
      else case (documentId s, signatureId s, uploadedSignature s, uploadedPdf s,
                 currentSignatureBox (signatureBoxState s)) of
             (Some docId, Some sigId, Some sigFile, Some pdfFile, Some box) \<Rightarrow>
               Some (docId, sigId, sigFile, pdfFile)
           | _ \<Rightarrow> None)"

definition handleSignPdf :: "Env \<Rightarrow> UiState \<Rightarrow> UiState" where
  "handleSignPdf env s =
     (if hasSignedOnce s then s
      else case signInputs s of
        None \<Rightarrow>
          (let errorMsg = ''Please upload both PDF and signature''
           in showError errorMsg (s\<lparr>error := Some errorMsg\<rparr>))
      | Some (docId, sigId, sigFile, pdfFile) \<Rightarrow>
          (let s0 = s\<lparr>currentStep := Signing, signingProgress := 0, error := None,
                      isSigning := True\<rparr>;
               (thrown, s1) = signTry env pdfFile sigFile docId sigId s0;
               s2 = (case thrown of
                       None \<Rightarrow> s1
                     | Some message \<Rightarrow>
                         (let errorMsg = (if message = [] then ''Failed to sign PDF. Please try again.''
                                          else message)
                          in (showError errorMsg (s1\<lparr>error := Some errorMsg\<rparr>))
                               \<lparr>currentStep := Preview\<rparr>))
           in s2\<lparr>isSigning := False\<rparr>))"

text \<open>\<open>handleStampPdf\<close>, the handler of the Stamp button.\<close>

definition handleStampPdf :: "Env \<Rightarrow> UiState \<Rightarrow> UiState" where
  "handleStampPdf env s =
     (if falsy (documentId s) \<or> falsy (signatureId s) \<or> uploadedSignature s = None
         \<or> currentSignatureBox (signatureBoxState s) = None \<or> isSigning s \<or> hasSignedOnce s
      then s
      else handleSignPdf env s)"

section \<open>Placing the box (PDFPreview)\<close>

record PointerEvent =
  clientX :: real
  clientY :: real
  pointerId :: int

record DOMRect =
  rect_left :: real
  rect_top :: real
  rect_width :: real
  rect_height :: real

definition clamp :: "real \<Rightarrow> real \<Rightarrow> real \<Rightarrow> real" where
  "clamp v lo hi = (if v < lo then lo else if v > hi then hi else v)"

text \<open>
  The handlers take the props of the component as arguments: the two callbacks (absent
  when the parent passes none), \<open>placementMode\<close> and \<open>signatureBox\<close>; \<open>firstPage\<close> is the
  rectangle of the element \<open>firstPageContainerRef\<close> points to, if any. A handler that
  divides by the size of a rectangle returns \<open>None\<close> when that size is zero.
\<close>

type_synonym PositionSelect = "real \<Rightarrow> real \<Rightarrow> UiState \<Rightarrow> UiState"

type_synonym SignatureBoxChange = "SignatureBox option \<Rightarrow> bool option \<Rightarrow> UiState \<Rightarrow> UiState"

definition handlePageClick ::
  "PositionSelect option \<Rightarrow> bool \<Rightarrow> SignatureBoxChange option \<Rightarrow>
   DOMRect \<Rightarrow> PointerEvent \<Rightarrow> nat \<Rightarrow> UiState \<Rightarrow> UiState option" where
  "handlePageClick onPositionSelect placement onSignatureBoxChange rect event pageIndex s =
     (if onPositionSelect = None \<and> (placement \<and> onSignatureBoxChange \<noteq> None) = False then Some s
      else if pageIndex \<noteq> 0 then
        Some (showError ''Hey! Signature positioning should be done only on the first page.'' s)
      else if rect_width rect = 0 \<or> rect_height rect = 0 then None
      else
        (let x = (clientX event - rect_left rect) / rect_width rect;
             y = (clientY event - rect_top rect) / rect_height rect;
             s1 = (case onSignatureBoxChange of
                     None \<Rightarrow> s
                   | Some change \<Rightarrow>
                       if placement then
                         (let defaultWidth = 0.25 :: real;
                              defaultHeight = 0.12 :: real;
                              boxX = clamp (x - defaultWidth / 2) 0 (1 - defaultWidth);
                              boxY = clamp (y - defaultHeight / 2) 0 (1 - defaultHeight);
                              box = \<lparr>box_x = toFixed4 boxX, box_y = toFixed4 boxY,
                                     box_width = toFixed4 defaultWidth,
                                     box_height = toFixed4 defaultHeight\<rparr>
                          in change (Some box) (Some True) s)
                       else s)
         in case onPositionSelect of
              None \<Rightarrow> Some s1
            | Some select \<Rightarrow> Some (select (toFixed4 x) (toFixed4 y) s1)))"

definition handleSignaturePointerDown ::
  "bool \<Rightarrow> SignatureBox option \<Rightarrow> DOMRect option \<Rightarrow> PointerEvent \<Rightarrow> DragMode \<Rightarrow>
   UiState \<Rightarrow> UiState" where
  "handleSignaturePointerDown placement signatureBox firstPage event mode s =
     (if placement = False \<or> signatureBox = None \<or> firstPage = None then s
      else s\<lparr>dragStateRef :=
               Some \<lparr>drag_mode = Some mode, drag_pointerId = Some (pointerId event),
                     drag_startX = clientX event, drag_startY = clientY event,
                     drag_startBox = signatureBox\<rparr>\<rparr>)"

definition handleSignaturePointerMove ::
  "SignatureBoxChange option \<Rightarrow> DOMRect option \<Rightarrow> PointerEvent \<Rightarrow> UiState \<Rightarrow> UiState option" where
  "handleSignaturePointerMove onSignatureBoxChange firstPage event s =
     (case dragStateRef s of
        None \<Rightarrow> Some s
      | Some dragState \<Rightarrow>
     (case (drag_mode dragState, drag_startBox dragState, firstPage, onSignatureBoxChange) of
        (Some mode, Some currentBox, Some rect, Some change) \<Rightarrow>
          if rect_width rect = 0 \<or> rect_height rect = 0 then None
          else
            (let deltaX = (clientX event - drag_startX dragState) / rect_width rect;
                 deltaY = (clientY event - drag_startY dragState) / rect_height rect
             in case mode of
                  Move \<Rightarrow>
                    (let x = clamp (box_x currentBox + deltaX) 0 (1 - box_width currentBox);
                         y = clamp (box_y currentBox + deltaY) 0 (1 - box_height currentBox)
                     in Some (change (Some (currentBox\<lparr>box_x := x, box_y := y\<rparr>)) (Some False) s))
                | Resize \<Rightarrow>
                    (let minWidth = 0.05 :: real;
                         minHeight = 0.03 :: real;
                         width = clamp (box_width currentBox + deltaX) minWidth (1 - box_x currentBox);
                         height = clamp (box_height currentBox + deltaY) minHeight (1 - box_y currentBox)
                     in Some (change (Some (currentBox\<lparr>box_width := width, box_height := height\<rparr>))
                                (Some False) s)))
      | _ \<Rightarrow> Some s))"

definition handleSignaturePointerUp ::
  "SignatureBoxChange option \<Rightarrow> SignatureBox option \<Rightarrow> PointerEvent \<Rightarrow> UiState \<Rightarrow> UiState" where
  "handleSignaturePointerUp onSignatureBoxChange signatureBox event s =
     (case dragStateRef s of
        None \<Rightarrow> s\<lparr>dragStateRef := None\<rparr>
      | Some dragState \<Rightarrow>
     (case (drag_mode dragState, onSignatureBoxChange, signatureBox) of
        (Some mode, Some change, Some box) \<Rightarrow> (change (Some box) (Some True) s)\<lparr>dragStateRef := None\<rparr>
      | _ \<Rightarrow> s\<lparr>dragStateRef := None\<rparr>))"

text \<open>
  The callbacks ApplicationSection passes to the preview. \<open>onPositionSelect\<close> sets the
  marker position only, which is not part of the state here; \<open>onSignatureBoxChange\<close>
  calls \<open>updateSignatureBox(box, options?.pushHistory ?? true)\<close>.
\<close>

definition appPositionSelect :: PositionSelect where
  "appPositionSelect x y s = s"

definition appSignatureBoxChange :: SignatureBoxChange where
  "appSignatureBoxChange box options s =
     s\<lparr>signatureBoxState :=
         updateSignatureBox box (case options of None \<Rightarrow> True | Some pushHistory \<Rightarrow> pushHistory)
           (signatureBoxState s)\<rparr>"

text \<open>
  What the rendered preview does with an event, by the page it arrives on. Every page
  has the click handler. The overlay is drawn when there is a signature image and a
  box; its pointer handlers, and the resize handle, exist on the first page only.
\<close>

datatype UiEvent =
    PageClick nat DOMRect PointerEvent
  | OverlayPointerDown nat PointerEvent
  | ResizeHandlePointerDown nat PointerEvent
  | OverlayPointerMove nat PointerEvent
  | OverlayPointerUp nat PointerEvent

fun eventPage :: "UiEvent \<Rightarrow> nat" where
  "eventPage (PageClick i rect event) = i"
| "eventPage (OverlayPointerDown i event) = i"
| "eventPage (ResizeHandlePointerDown i event) = i"
| "eventPage (OverlayPointerMove i event) = i"
| "eventPage (OverlayPointerUp i event) = i"

definition overlayShown :: "UiState \<Rightarrow> bool" where
  "overlayShown s =
     (signaturePreviewUrl s \<noteq> None \<and> currentSignatureBox (signatureBoxState s) \<noteq> None)"

fun dispatch :: "DOMRect option \<Rightarrow> UiEvent \<Rightarrow> UiState \<Rightarrow> UiState option" where
  "dispatch firstPage (PageClick i rect event) s =
     handlePageClick (Some appPositionSelect) (placementMode s) (Some appSignatureBoxChange)
       rect event i s"
| "dispatch firstPage (OverlayPointerDown i event) s =
     (if overlayShown s \<and> i = 0 then
        Some (handleSignaturePointerDown (placementMode s)
                (currentSignatureBox (signatureBoxState s)) firstPage event Move s)
      else Some s)"
| "dispatch firstPage (ResizeHandlePointerDown i event) s =
     (if overlayShown s \<and> i = 0 then
        Some (handleSignaturePointerDown (placementMode s)
                (currentSignatureBox (signatureBoxState s)) firstPage event Resize s)
      else Some s)"
| "dispatch firstPage (OverlayPointerMove i event) s =
     (if overlayShown s \<and> i = 0 then
        handleSignaturePointerMove (Some appSignatureBoxChange) firstPage event s
      else Some s)"
| "dispatch firstPage (OverlayPointerUp i event) s =
     (if overlayShown s \<and> i = 0 then
        Some (handleSignaturePointerUp (Some appSignatureBoxChange)
                (currentSignatureBox (signatureBoxState s)) event s)
      else Some s)"

text \<open>A sequence of events, each with the rectangle of the first page at that moment.\<close>

fun run :: "(DOMRect option \<times> UiEvent) list \<Rightarrow> UiState \<Rightarrow> UiState option" where
  "run [] s = Some s"
| "run ((firstPage, e) # es) s =
     (case dispatch firstPage e s of None \<Rightarrow> None | Some s' \<Rightarrow> run es s')"

section \<open>Sample inputs\<close>

definition box0 :: SignatureBox where
  "box0 = \<lparr>box_x = 0.375, box_y = 0.44, box_width = 0.25, box_height = 0.12\<rparr>"

definition boxA :: SignatureBox where
  "boxA = \<lparr>box_x = 0.1, box_y = 0.2, box_width = 0.25, box_height = 0.12\<rparr>"

definition boxB :: SignatureBox where
  "boxB = \<lparr>box_x = 0.5, box_y = 0.6, box_width = 0.3, box_height = 0.2\<rparr>"

definition boxC :: SignatureBox where
  "boxC = \<lparr>box_x = 0.7, box_y = 0.05, box_width = 0.1, box_height = 0.1\<rparr>"

definition threeBoxes :: SignatureBoxState where
  "threeBoxes = \<lparr>history = [Some box0, Some boxA, Some boxB], index = 2\<rparr>"

text \<open>A page after \<open>drawImage\<close> has returned for the rectangle of the box.\<close>

definition stamped :: "PDFImage \<Rightarrow> SignatureBox \<Rightarrow> PDFPage \<Rightarrow> PDFPage" where
  "stamped sigImage box page = page\<lparr>page_drawn := page_drawn page @ [(sigImage, pageRect box page)]\<rparr>"

text \<open>Two pages of different sizes, two files, and an environment in which every call succeeds;
  its \<open>save\<close> writes one byte for each image drawn, from the left edge of the rectangle.\<close>

definition a4 :: PDFPage where
  "a4 = \<lparr>page_width = 595, page_height = 842, page_drawn = []\<rparr>"

definition a5 :: PDFPage where
  "a5 = \<lparr>page_width = 420, page_height = 595, page_drawn = []\<rparr>"

definition pdfFile0 :: File where
  "pdfFile0 = \<lparr>file_name = ''contract.pdf'', file_type = ''application/pdf'', file_size = 40000\<rparr>"

definition pngFile0 :: File where
  "pngFile0 = \<lparr>file_name = ''sig.png'', file_type = ''image/png'', file_size = 2048\<rparr>"

definition encodeDoc :: "PDFDocument \<Rightarrow> bytes" where
  "encodeDoc d = concat (map (\<lambda>p. map (\<lambda>(img, r). word_of_int \<lfloor>opt_x r\<rfloor>) (page_drawn p)) (doc_pages d))"

definition envOk :: Env where
  "envOk =
     \<lparr>arrayBuffer = (\<lambda>f. Inr (if file_type f = ''application/pdf'' then [0x25, 0x50, 0x44, 0x46] else [0x89, 0x50])),
      load = (\<lambda>b. Inr \<lparr>doc_pages = [a4, a5]\<rparr>),
      embedPng = (\<lambda>b. Inr \<lparr>image_format = PNG, image_bytes = b\<rparr>),
      embedJpg = (\<lambda>b. Inr \<lparr>image_format = JPEG, image_bytes = b\<rparr>),
      drawImageThrows = (\<lambda>p i r. None),
      save = (\<lambda>d. Inr (encodeDoc d)),
      signPDF = (\<lambda>d g. Inr ''signed-1'')\<rparr>"

definition sigPng :: PDFImage where
  "sigPng = \<lparr>image_format = PNG, image_bytes = [0x89, 0x50]\<rparr>"

text \<open>The state of a fresh page, and after a PDF and a PNG signature have been uploaded.\<close>

definition initialState :: UiState where
  "initialState =
     \<lparr>currentStep = Upload, uploadedPdf = None, uploadedSignature = None, documentId = None,
      signatureId = None, signedPdfUrl = None, signedDocumentId = None, signedBlob = None,
      signingProgress = 0, error = None, isSigning = False, placementMode = False,
      signaturePreviewUrl = None, signatureBoxState = \<lparr>history = [], index = -1\<rparr>,
      hasSignedOnce = False, dragStateRef = None, errorToasts = []\<rparr>"

definition readyState :: UiState where
  "readyState = handleSignatureUpload pngFile0 ''sig-1'' (handlePdfUpload pdfFile0 ''doc-1'' initialState)"


text \<open>An environment whose parser returns a document without pages.\<close>

definition envEmpty :: Env where
  "envEmpty = envOk\<lparr>load := (\<lambda>b. Inr \<lparr>doc_pages = []\<rparr>)\<rparr>"

text \<open>
  A file whose declared type is neither PNG nor JPEG but whose name ends in \<open>.jpg\<close>, a
  file without a declared type, and an environment whose JPEG embedder throws.
\<close>

definition gifFile :: File where
  "gifFile = \<lparr>file_name = ''scan.jpg'', file_type = ''image/gif'', file_size = 2048\<rparr>"

definition gifState :: UiState where
  "gifState = handleSignatureUpload gifFile ''sig-2'' (handlePdfUpload pdfFile0 ''doc-1'' initialState)"

definition untypedPng :: File where
  "untypedPng = \<lparr>file_name = ''sig.PNG'', file_type = [], file_size = 2048\<rparr>"

definition untypedState :: UiState where
  "untypedState = handleSignatureUpload untypedPng ''sig-3'' (handlePdfUpload pdfFile0 ''doc-1'' initialState)"

definition envJpgFails :: Env where
  "envJpgFails = envOk\<lparr>embedJpg := (\<lambda>b. Inl ''SOI not found in JPEG'')\<rparr>"

text \<open>The state after one stamp, and after the box has then been put elsewhere.\<close>

definition stampedOnce :: UiState where
  "stampedOnce = handleSignPdf envOk readyState"

definition movedAfterStamp :: UiState where
  "movedAfterStamp = appSignatureBoxChange (Some boxC) (Some True) stampedOnce"

section \<open>Properties of states\<close>

text \<open>
  A box inside the unit square and not smaller than the least size a resize allows, and
  the states in which the box is being placed: placement mode, an image to show, a
  current box within these bounds, and, during a drag, a start box within them.
\<close>

definition validBox :: "SignatureBox \<Rightarrow> bool" where
  "validBox b =
     (0 \<le> box_x b \<and> 0 \<le> box_y b \<and> box_x b + box_width b \<le> 1 \<and> box_y b + box_height b \<le> 1
      \<and> 0.05 \<le> box_width b \<and> 0.03 \<le> box_height b)"

definition placing :: "UiState \<Rightarrow> bool" where
  "placing s =
     (placementMode s \<and> signaturePreviewUrl s \<noteq> None
      \<and> (case currentSignatureBox (signatureBoxState s) of None \<Rightarrow> False | Some b \<Rightarrow> validBox b)
      \<and> (case dragStateRef s of
            None \<Rightarrow> True
          | Some d \<Rightarrow> (case drag_startBox d of None \<Rightarrow> True | Some b \<Rightarrow> validBox b)))"

text \<open>A drag, where one is in progress, has a mode and a start box.\<close>

definition dragStarted :: "UiState \<Rightarrow> bool" where
  "dragStarted s =
     (case dragStateRef s of
        None \<Rightarrow> True
      | Some d \<Rightarrow>
          (case drag_mode d of
             None \<Rightarrow> False
           | Some m \<Rightarrow> (case drag_startBox d of None \<Rightarrow> False | Some b \<Rightarrow> True)))"

text \<open>
  A first page of 1000 by 1000 pixels and a pointer; the events that shrink the default
  box to 0.1 by 0.1, move it to (0.8, 0.8) and take hold of the resize handle, and the
  state they lead to.
\<close>

definition page1000 :: DOMRect where
  "page1000 = \<lparr>rect_left = 0, rect_top = 0, rect_width = 1000, rect_height = 1000\<rparr>"

definition ptr :: "real \<Rightarrow> real \<Rightarrow> PointerEvent" where
  "ptr x y = \<lparr>clientX = x, clientY = y, pointerId = 1\<rparr>"

definition toCorner :: "(DOMRect option \<times> UiEvent) list" where
  "toCorner =
     [(Some page1000, ResizeHandlePointerDown 0 (ptr 620 555)),
      (Some page1000, OverlayPointerMove 0 (ptr 470 535)),
      (Some page1000, OverlayPointerUp 0 (ptr 470 535)),
      (Some page1000, OverlayPointerDown 0 (ptr 400 450)),
      (Some page1000, OverlayPointerMove 0 (ptr 825 810)),
      (Some page1000, OverlayPointerUp 0 (ptr 825 810)),
      (Some page1000, ResizeHandlePointerDown 0 (ptr 895 895))]"

definition smallBox :: SignatureBox where
  "smallBox = \<lparr>box_x = 0.375, box_y = 0.44, box_width = 0.1, box_height = 0.1\<rparr>"

definition cornerBox :: SignatureBox where
  "cornerBox = \<lparr>box_x = 0.8, box_y = 0.8, box_width = 0.1, box_height = 0.1\<rparr>"

definition atCorner :: UiState where
  "atCorner =
     readyState
       \<lparr>signatureBoxState := \<lparr>history = [Some smallBox, Some cornerBox, Some cornerBox], index = 2\<rparr>,
        dragStateRef := Some \<lparr>drag_mode = Some Resize, drag_pointerId = Some 1, drag_startX = 895,
                               drag_startY = 895, drag_startBox = Some cornerBox\<rparr>\<rparr>"

definition edgeBox :: SignatureBox where
  "edgeBox = \<lparr>box_x = 0.8, box_y = 0.8, box_width = 0.2, box_height = 0.1\<rparr>"

text \<open>
  The default box moved by (0.1, -0.05), and the drag with the mouse that moves it:
  pointer down, move and up on the overlay, and then the click that the release
  produces. The overlay has no click handler and the handlers of the drag stop the
  propagation of the pointer down only, so the click reaches the container of the first
  page. Then the first two events of the drag, the state in the middle of it, a later
  position of the same drag, and the box a click at the point of release puts there.
\<close>

definition movedBox :: SignatureBox where
  "movedBox = \<lparr>box_x = 0.475, box_y = 0.39, box_width = 0.25, box_height = 0.12\<rparr>"

definition moveDrag :: "(DOMRect option \<times> UiEvent) list" where
  "moveDrag =
     [(Some page1000, OverlayPointerDown 0 (ptr 400 450)),
      (Some page1000, OverlayPointerMove 0 (ptr 500 400)),
      (Some page1000, OverlayPointerUp 0 (ptr 500 400)),
      (Some page1000, PageClick 0 page1000 (ptr 500 400))]"

definition recentredBox :: SignatureBox where
  "recentredBox = \<lparr>box_x = 0.375, box_y = 0.34, box_width = 0.25, box_height = 0.12\<rparr>"

definition halfDrag :: "(DOMRect option \<times> UiEvent) list" where
  "halfDrag =
     [(Some page1000, OverlayPointerDown 0 (ptr 400 450)),
      (Some page1000, OverlayPointerMove 0 (ptr 500 400))]"

definition midDrag :: UiState where
  "midDrag =
     readyState
       \<lparr>signatureBoxState := \<lparr>history = [Some movedBox], index = 0\<rparr>,
        dragStateRef := Some \<lparr>drag_mode = Some Move, drag_pointerId = Some 1, drag_startX = 400,
                               drag_startY = 450, drag_startBox = Some box0\<rparr>\<rparr>"

definition laterBox :: SignatureBox where
  "laterBox = \<lparr>box_x = 0.425, box_y = 0.49, box_width = 0.25, box_height = 0.12\<rparr>"

text \<open>Clicks among the events, and a sequence of events on pages other than the first.\<close>

fun isPageClick :: "UiEvent \<Rightarrow> bool" where
  "isPageClick (PageClick i rect event) = True"
| "isPageClick e = False"

definition otherPages :: "(DOMRect option \<times> UiEvent) list" where
  "otherPages =
     [(Some page1000, PageClick 1 page1000 (ptr 300 1400)),
      (Some page1000, OverlayPointerDown 1 (ptr 400 1450)),
      (Some page1000, OverlayPointerMove 1 (ptr 500 1400)),
      (Some page1000, OverlayPointerUp 1 (ptr 500 1400)),
      (Some page1000, ResizeHandlePointerDown 2 (ptr 620 2555))]"

section \<open>Committing after undo\<close>

lemma undo_history: "history ((undo ^^ k) st) = history st"
  by (induction k) (simp_all add: undo_def)

lemma undo_index: "0 \<le> index st \<Longrightarrow> index ((undo ^^ k) st) = max 0 (index st - int k)"
  by (induction k) (auto simp: undo_def)

lemma redo_at_tail: "index st = int (length (history st)) - 1 \<Longrightarrow> (redo ^^ n) st = st"
  by (induction n) (simp_all add: redo_def)

lemma push_truncates:
  "0 \<le> index st \<Longrightarrow> index st < int (length (history st)) \<Longrightarrow>
   updateSignatureBox (Some b) True st =
     \<lparr>history = take (nat (index st) + 1) (history st) @ [Some b], index = index st + 1\<rparr>"
  by (auto simp: updateSignatureBox_def slice0_def Let_def nat_add_distrib min_def)

text \<open>
  C5. A commit made after \<open>k\<close> undos keeps the entries up to the index the undos
  reached, appends the new box, and points the index at it; the entries that were after
  the index are gone, and redo, however often, changes nothing.
\<close>

theorem C5_commit_after_undo:
  assumes "0 \<le> index st" and "index st < int (length (history st))"
  shows "index ((undo ^^ k) st) = max 0 (index st - int k)
       \<and> history (updateSignatureBox (Some b) True ((undo ^^ k) st))
           = take (nat (index ((undo ^^ k) st)) + 1) (history st) @ [Some b]
       \<and> index (updateSignatureBox (Some b) True ((undo ^^ k) st))
           = int (length (history (updateSignatureBox (Some b) True ((undo ^^ k) st)))) - 1
       \<and> (redo ^^ n) (updateSignatureBox (Some b) True ((undo ^^ k) st))
           = updateSignatureBox (Some b) True ((undo ^^ k) st)"
proof -
  let ?u = "(undo ^^ k) st"
  have iu: "index ?u = max 0 (index st - int k)"
    using assms(1) by (rule undo_index)
  have hu: "history ?u = history st"
    by (rule undo_history)
  have lo: "0 \<le> index ?u" and hi: "index ?u < int (length (history ?u))"
    using iu hu assms by auto
  have push: "updateSignatureBox (Some b) True ?u =
      \<lparr>history = take (nat (index ?u) + 1) (history ?u) @ [Some b], index = index ?u + 1\<rparr>"
    using lo hi by (rule push_truncates)
  have tail: "index (updateSignatureBox (Some b) True ?u)
      = int (length (history (updateSignatureBox (Some b) True ?u))) - 1"
    using lo hi by (auto simp: push min_def)
  show ?thesis
    using iu push hu tail redo_at_tail [OF tail] by simp
qed

theorem C5_commit_after_undo_witness:
  "0 \<le> index threeBoxes \<and> index threeBoxes < int (length (history threeBoxes))
   \<and> index ((undo ^^ 2) threeBoxes) = 0
   \<and> updateSignatureBox (Some boxC) True ((undo ^^ 2) threeBoxes)
       = \<lparr>history = [Some box0, Some boxC], index = 1\<rparr>
   \<and> (redo ^^ 3) (updateSignatureBox (Some boxC) True ((undo ^^ 2) threeBoxes))
       = \<lparr>history = [Some box0, Some boxC], index = 1\<rparr>"
  using C5_commit_after_undo [of threeBoxes 2 boxC 3]
  by (simp add: threeBoxes_def boxC_def numeral_2_eq_2 undo_def updateSignatureBox_def slice0_def)

section \<open>The rectangle drawn on each page\<close>

lemma stampPages_Inr:
  "stampPages env sigImage box pages = Inr pages' \<Longrightarrow> pages' = map (stamped sigImage box) pages"
  by (induction pages arbitrary: pages')
     (auto simp: drawImage_def stamped_def split: sum.splits option.splits)

lemma pageRect_normalized:
  "page_width page \<noteq> 0 \<Longrightarrow> page_height page \<noteq> 0 \<Longrightarrow>
   opt_x (pageRect box page) / page_width page = box_x box
   \<and> opt_width (pageRect box page) / page_width page = box_width box
   \<and> opt_height (pageRect box page) / page_height page = box_height box
   \<and> (page_height page - opt_y (pageRect box page) - opt_height (pageRect box page)) / page_height page
       = box_y box"
  by (simp add: pageRect_def Let_def)

text \<open>
  C1. When the loop over the pages returns, every page has kept its size and has one more
  image drawn: the signature, at \<open>x = box.x * pageWidth\<close>,
  \<open>y = pageHeight - box.y * pageHeight - box.height * pageHeight\<close>, with width
  \<open>box.width * pageWidth\<close> and height \<open>box.height * pageHeight\<close>, each taken from
  that page's own size. Divided by the page's own size (and \<open>y\<close> turned back to the top
  left origin) the rectangle is the box again, on every page of non-zero size.
\<close>

theorem C1_stamp_rectangle:
  assumes "stampPages env sigImage box pages = Inr pages'" and "i < length pages"
  shows "length pages' = length pages
       \<and> page_width (pages' ! i) = page_width (pages ! i)
       \<and> page_height (pages' ! i) = page_height (pages ! i)
       \<and> page_drawn (pages' ! i) =
           page_drawn (pages ! i) @
             [(sigImage,
               \<lparr>opt_x = box_x box * page_width (pages ! i),
                opt_y = page_height (pages ! i) - box_y box * page_height (pages ! i)
                        - box_height box * page_height (pages ! i),
                opt_width = box_width box * page_width (pages ! i),
                opt_height = box_height box * page_height (pages ! i)\<rparr>)]
       \<and> (page_width (pages ! i) \<noteq> 0 \<and> page_height (pages ! i) \<noteq> 0 \<longrightarrow>
            (let r = snd (last (page_drawn (pages' ! i)))
             in \<lparr>box_x = opt_x r / page_width (pages' ! i),
                 box_y = (page_height (pages' ! i) - opt_y r - opt_height r) / page_height (pages' ! i),
                 box_width = opt_width r / page_width (pages' ! i),
                 box_height = opt_height r / page_height (pages' ! i)\<rparr> = box))"
proof -
  have eq: "pages' = map (stamped sigImage box) pages"
    using assms(1) by (rule stampPages_Inr)
  have nth: "pages' ! i = stamped sigImage box (pages ! i)"
    using eq assms(2) by simp
  have rect: "pageRect box (pages ! i) =
      \<lparr>opt_x = box_x box * page_width (pages ! i),
       opt_y = page_height (pages ! i) - box_y box * page_height (pages ! i)
               - box_height box * page_height (pages ! i),
       opt_width = box_width box * page_width (pages ! i),
       opt_height = box_height box * page_height (pages ! i)\<rparr>"
    by (simp add: pageRect_def Let_def)
  have norm: "page_width (pages ! i) \<noteq> 0 \<and> page_height (pages ! i) \<noteq> 0 \<longrightarrow>
      \<lparr>box_x = opt_x (pageRect box (pages ! i)) / page_width (pages ! i),
       box_y = (page_height (pages ! i) - opt_y (pageRect box (pages ! i))
                - opt_height (pageRect box (pages ! i))) / page_height (pages ! i),
       box_width = opt_width (pageRect box (pages ! i)) / page_width (pages ! i),
       box_height = opt_height (pageRect box (pages ! i)) / page_height (pages ! i)\<rparr> = box"
    using pageRect_normalized [of "pages ! i" box] by simp
  show ?thesis
    using eq nth rect norm by (simp add: stamped_def Let_def)
qed

theorem C1_stamp_rectangle_witness:
  "stampPages envOk sigPng box0 [a4, a5]
     = Inr [a4\<lparr>page_drawn := [(sigPng, \<lparr>opt_x = 223.125, opt_y = 370.48, opt_width = 148.75, opt_height = 101.04\<rparr>)]\<rparr>,
            a5\<lparr>page_drawn := [(sigPng, \<lparr>opt_x = 157.5, opt_y = 261.8, opt_width = 105, opt_height = 71.4\<rparr>)]\<rparr>]
   \<and> \<lparr>box_x = 157.5 / 420, box_y = (595 - 261.8 - 71.4) / 595, box_width = 105 / 420, box_height = 71.4 / 595\<rparr> = box0"
  using C1_stamp_rectangle [of envOk sigPng box0 "[a4, a5]"
      "[a4\<lparr>page_drawn := [(sigPng, \<lparr>opt_x = 223.125, opt_y = 370.48, opt_width = 148.75, opt_height = 101.04\<rparr>)]\<rparr>,
        a5\<lparr>page_drawn := [(sigPng, \<lparr>opt_x = 157.5, opt_y = 261.8, opt_width = 105, opt_height = 71.4\<rparr>)]\<rparr>]" 1]
  by (simp add: envOk_def drawImage_def pageRect_def box0_def a4_def a5_def)

section \<open>The outcome of handleSignPdf\<close>

lemma readyState_box: "currentSignatureBox (signatureBoxState readyState) = Some box0"
  by (simp add: readyState_def handleSignatureUpload_def currentSignatureBox_def toFixed4_def box0_def)

lemma readyState_inputs: "signInputs readyState = Some (''doc-1'', ''sig-1'', pngFile0, pdfFile0)"
  using readyState_box
  by (simp add: signInputs_def falsy_def)
     (simp add: readyState_def handleSignatureUpload_def handlePdfUpload_def initialState_def)

lemma sign_fail_embed:
  assumes "hasSignedOnce s = False"
    and "signInputs s = Some (docId, sigId, sigFile, pdfFile)"
    and "readAndEmbed env pdfFile sigFile = Inl msg"
  shows "signedBlob (handleSignPdf env s) = signedBlob s
       \<and> signedPdfUrl (handleSignPdf env s) = signedPdfUrl s
       \<and> error (handleSignPdf env s)
           = Some (if msg = [] then ''Failed to sign PDF. Please try again.'' else msg)
       \<and> currentStep (handleSignPdf env s) = Preview"
  using assms by (simp add: handleSignPdf_def signTry_def showError_def Let_def)


lemma sign_fail_save:
  assumes "hasSignedOnce s = False"
    and "signInputs s = Some (docId, sigId, sigFile, pdfFile)"
    and "currentSignatureBox (signatureBoxState s) = Some box"
    and "readAndEmbed env pdfFile sigFile = Inr (pdfDoc, sigImage)"
    and "stampPages env sigImage box (doc_pages pdfDoc) = Inr pages'"
    and "save env (pdfDoc\<lparr>doc_pages := pages'\<rparr>) = Inl msg"
  shows "signedBlob (handleSignPdf env s) = signedBlob s
       \<and> signedPdfUrl (handleSignPdf env s) = signedPdfUrl s
       \<and> error (handleSignPdf env s)
           = Some (if msg = [] then ''Failed to sign PDF. Please try again.'' else msg)
       \<and> currentStep (handleSignPdf env s) = Preview"
  using assms by (simp add: handleSignPdf_def signTry_def showError_def Let_def)

lemma sign_success:
  assumes "hasSignedOnce s = False"
    and "signInputs s = Some (docId, sigId, sigFile, pdfFile)"
    and "currentSignatureBox (signatureBoxState s) = Some box"
    and "readAndEmbed env pdfFile sigFile = Inr (pdfDoc, sigImage)"
    and "stampPages env sigImage box (doc_pages pdfDoc) = Inr pages'"
    and "save env (pdfDoc\<lparr>doc_pages := pages'\<rparr>) = Inr out"
  shows "signedBlob (handleSignPdf env s) = Some out
       \<and> signedPdfUrl (handleSignPdf env s) = Some out
       \<and> error (handleSignPdf env s) = None
       \<and> currentStep (handleSignPdf env s) = Complete"
  using assms
  by (simp add: handleSignPdf_def signTry_def showError_def Let_def split: sum.splits)

lemma hasSignedOnce_handleSignPdf: "hasSignedOnce (handleSignPdf env s) = hasSignedOnce s"
  by (simp add: handleSignPdf_def signTry_def showError_def Let_def
           split: option.splits sum.splits prod.splits)





section \<open>Evaluating the sample environment\<close>

lemma readAndEmbed_envOk_png:
  "readAndEmbed envOk pdfFile0 pngFile0 = Inr (\<lparr>doc_pages = [a4, a5]\<rparr>, sigPng)"
  by (simp add: readAndEmbed_def envOk_def pdfFile0_def pngFile0_def sigPng_def)

lemma stampPages_envOk:
  "stampPages envOk img box [a4, a5] = Inr [stamped img box a4, stamped img box a5]"
  by (simp add: envOk_def drawImage_def stamped_def)

lemma encode_box0:
  "encodeDoc \<lparr>doc_pages = [stamped img box0 a4, stamped img box0 a5]\<rparr> = [223, 157]"
  by (simp add: encodeDoc_def stamped_def pageRect_def box0_def a4_def a5_def)

lemma encode_boxC:
  "encodeDoc \<lparr>doc_pages = [stamped img boxC a4, stamped img boxC a5]\<rparr> = [160, 38]"
  by (simp add: encodeDoc_def stamped_def pageRect_def boxC_def a4_def a5_def)

lemma save_envOk: "save envOk d = Inr (encodeDoc d)"
  by (simp add: envOk_def)

lemma readyState_flag: "hasSignedOnce readyState = False"
  by (simp add: readyState_def handleSignatureUpload_def)

lemma first_stamp:
  "signedBlob (handleSignPdf envOk readyState) = Some [223, 157]
   \<and> signedPdfUrl (handleSignPdf envOk readyState) = Some [223, 157]
   \<and> error (handleSignPdf envOk readyState) = None
   \<and> currentStep (handleSignPdf envOk readyState) = Complete"
  using sign_success [OF readyState_flag readyState_inputs readyState_box readAndEmbed_envOk_png,
      of "[stamped sigPng box0 a4, stamped sigPng box0 a5]" "[223, 157]"]
  by (simp add: stampPages_envOk save_envOk encode_box0 del: stampPages.simps)

section \<open>A document without pages\<close>

lemma readAndEmbed_envEmpty:
  "readAndEmbed envEmpty pdfFile0 pngFile0 = Inr (\<lparr>doc_pages = []\<rparr>, sigPng)"
  by (simp add: readAndEmbed_def envEmpty_def envOk_def pdfFile0_def pngFile0_def sigPng_def)

lemma save_envEmpty: "save envEmpty \<lparr>doc_pages = []\<rparr> = Inr []"
  by (simp add: envEmpty_def envOk_def encodeDoc_def)

text \<open>
  C9, as stated, fails: with a parser that returns a document without pages the call
  ends without an error, at the last step, holding the bytes \<open>save\<close> returned.
\<close>

theorem C9_empty_document_counterexample:
  "load envEmpty [0x25, 0x50, 0x44, 0x46] = Inr \<lparr>doc_pages = []\<rparr>
   \<and> error (handleSignPdf envEmpty readyState) = None
   \<and> currentStep (handleSignPdf envEmpty readyState) = Complete
   \<and> signedBlob (handleSignPdf envEmpty readyState) = Some []"
  using sign_success [OF readyState_flag readyState_inputs readyState_box readAndEmbed_envEmpty,
      of "[]" "[]"]
  by (simp add: save_envEmpty) (simp add: envEmpty_def)

text \<open>
  C9, amended. When the document parses to zero pages and the image embeds, nothing is
  drawn and the document is saved as it was loaded: the outcome is that of \<open>save\<close>
  alone, its bytes on success, its message on failure. The number of pages is never
  checked.
\<close>

theorem C9_empty_document_saved:
  assumes "hasSignedOnce s = False"
    and "signInputs s = Some (docId, sigId, sigFile, pdfFile)"
    and "currentSignatureBox (signatureBoxState s) = Some box"
    and "readAndEmbed env pdfFile sigFile = Inr (pdfDoc, sigImage)"
    and "doc_pages pdfDoc = []"
  shows
    "(case save env pdfDoc of
        Inl msg \<Rightarrow>
          signedBlob (handleSignPdf env s) = signedBlob s
          \<and> error (handleSignPdf env s)
              = Some (if msg = [] then ''Failed to sign PDF. Please try again.'' else msg)
          \<and> currentStep (handleSignPdf env s) = Preview
      | Inr out \<Rightarrow>
          signedBlob (handleSignPdf env s) = Some out
          \<and> error (handleSignPdf env s) = None
          \<and> currentStep (handleSignPdf env s) = Complete)"
proof -
  have pages: "stampPages env sigImage box (doc_pages pdfDoc) = Inr []"
    using assms(5) by simp
  have same: "pdfDoc\<lparr>doc_pages := []\<rparr> = pdfDoc"
    using assms(5) by simp
  show ?thesis
  proof (cases "save env pdfDoc")
    case (Inl msg)
    then show ?thesis
      using sign_fail_save [OF assms(1-4) pages, of msg] same by simp
  next
    case (Inr out)
    then show ?thesis
      using sign_success [OF assms(1-4) pages, of out] same by simp
  qed
qed

theorem C9_empty_document_saved_witness:
  "hasSignedOnce readyState = False
   \<and> signInputs readyState = Some (''doc-1'', ''sig-1'', pngFile0, pdfFile0)
   \<and> currentSignatureBox (signatureBoxState readyState) = Some box0
   \<and> readAndEmbed envEmpty pdfFile0 pngFile0 = Inr (\<lparr>doc_pages = []\<rparr>, sigPng)
   \<and> signedBlob (handleSignPdf envEmpty readyState) = Some []
   \<and> error (handleSignPdf envEmpty readyState) = None
   \<and> currentStep (handleSignPdf envEmpty readyState) = Complete"
  using C9_empty_document_saved [OF readyState_flag readyState_inputs readyState_box
      readAndEmbed_envEmpty]
    readyState_flag readyState_inputs readyState_box readAndEmbed_envEmpty
  by (simp add: save_envEmpty)

section \<open>The format of the signature image\<close>

lemma gifState_box: "currentSignatureBox (signatureBoxState gifState) = Some box0"
  by (simp add: gifState_def handleSignatureUpload_def currentSignatureBox_def toFixed4_def box0_def)

lemma gifState_inputs: "signInputs gifState = Some (''doc-1'', ''sig-2'', gifFile, pdfFile0)"
  using gifState_box
  by (simp add: signInputs_def falsy_def)
     (simp add: gifState_def handleSignatureUpload_def handlePdfUpload_def initialState_def)

lemma gifState_flag: "hasSignedOnce gifState = False"
  by (simp add: gifState_def handleSignatureUpload_def)

lemma readAndEmbed_gif:
  "readAndEmbed envOk pdfFile0 gifFile
     = Inr (\<lparr>doc_pages = [a4, a5]\<rparr>, \<lparr>image_format = JPEG, image_bytes = [0x89, 0x50]\<rparr>)"
  by (simp add: readAndEmbed_def envOk_def pdfFile0_def gifFile_def)

text \<open>
  C8, as stated, fails: a file declared as \<open>image/gif\<close> passes \<open>validateImage\<close> by its
  name, is handed to the JPEG embedder, and where that embedder accepts the bytes the
  document is stamped.
\<close>

theorem C8_other_format_counterexample:
  "file_type gifFile = ''image/gif''
   \<and> validateImage gifFile = None
   \<and> error (handleSignPdf envOk gifState) = None
   \<and> currentStep (handleSignPdf envOk gifState) = Complete
   \<and> signedBlob (handleSignPdf envOk gifState) = Some [223, 157]"
  using sign_success [OF gifState_flag gifState_inputs gifState_box readAndEmbed_gif,
      of "[stamped \<lparr>image_format = JPEG, image_bytes = [0x89, 0x50]\<rparr> box0 a4,
           stamped \<lparr>image_format = JPEG, image_bytes = [0x89, 0x50]\<rparr> box0 a5]" "[223, 157]"]
  by (simp add: stampPages_envOk save_envOk encode_box0 del: stampPages.simps)
     (simp add: gifFile_def validateImage_def toLowerCase_def endsWith_def)

text \<open>
  C8, amended. The embedder is chosen by the declared type alone: \<open>embedPng\<close> when the
  type contains \<open>png\<close>, \<open>embedJpg\<close> for every other type. The call fails at this step
  exactly when the chosen embedder throws, and then shows that message (or the default
  one) with nothing produced; otherwise the step is passed. \<open>validateImage\<close> turns a file
  away for its format only when its type is none of the three listed and its name has
  none of the three endings.
\<close>

theorem C8_embed_by_declared_type:
  assumes "hasSignedOnce s = False"
    and "signInputs s = Some (docId, sigId, sigFile, pdfFile)"
    and "arrayBuffer env pdfFile = Inr pdfBytes"
    and "arrayBuffer env sigFile = Inr sigBytes"
    and "load env pdfBytes = Inr pdfDoc"
  shows
    "(case (if str_includes (file_type sigFile) ''png'' then embedPng env sigBytes
            else embedJpg env sigBytes) of
        Inl msg \<Rightarrow>
          signedBlob (handleSignPdf env s) = signedBlob s
          \<and> error (handleSignPdf env s)
              = Some (if msg = [] then ''Failed to sign PDF. Please try again.'' else msg)
          \<and> currentStep (handleSignPdf env s) = Preview
      | Inr sigImage \<Rightarrow> readAndEmbed env pdfFile sigFile = Inr (pdfDoc, sigImage))
     \<and> ((validateImage sigFile = Some ''Please select a PNG or JPEG image file only.'')
          = (file_type sigFile \<noteq> ''image/png'' \<and> file_type sigFile \<noteq> ''image/jpeg''
             \<and> file_type sigFile \<noteq> ''image/jpg''
             \<and> endsWith (toLowerCase (file_name sigFile)) ''.png'' = False
             \<and> endsWith (toLowerCase (file_name sigFile)) ''.jpg'' = False
             \<and> endsWith (toLowerCase (file_name sigFile)) ''.jpeg'' = False))"
proof -
  let ?embed = "if str_includes (file_type sigFile) ''png'' then embedPng env sigBytes
                else embedJpg env sigBytes"
  have rd: "readAndEmbed env pdfFile sigFile
      = (case ?embed of Inl msg \<Rightarrow> Inl msg | Inr sigImage \<Rightarrow> Inr (pdfDoc, sigImage))"
    using assms(3-5) by (simp add: readAndEmbed_def Let_def)
  have first: "case ?embed of
        Inl msg \<Rightarrow>
          signedBlob (handleSignPdf env s) = signedBlob s
          \<and> error (handleSignPdf env s)
              = Some (if msg = [] then ''Failed to sign PDF. Please try again.'' else msg)
          \<and> currentStep (handleSignPdf env s) = Preview
      | Inr sigImage \<Rightarrow> readAndEmbed env pdfFile sigFile = Inr (pdfDoc, sigImage)"
  proof (cases ?embed)
    case (Inl msg)
    then have "readAndEmbed env pdfFile sigFile = Inl msg"
      using rd by simp
    then show ?thesis
      using sign_fail_embed [OF assms(1,2), of env msg] Inl by simp
  next
    case (Inr sigImage)
    then show ?thesis
      using rd by simp
  qed
  have gate: "(validateImage sigFile = Some ''Please select a PNG or JPEG image file only.'')
          = (file_type sigFile \<noteq> ''image/png'' \<and> file_type sigFile \<noteq> ''image/jpeg''
             \<and> file_type sigFile \<noteq> ''image/jpg''
             \<and> endsWith (toLowerCase (file_name sigFile)) ''.png'' = False
             \<and> endsWith (toLowerCase (file_name sigFile)) ''.jpg'' = False
             \<and> endsWith (toLowerCase (file_name sigFile)) ''.jpeg'' = False)"
    by (auto simp: validateImage_def)
  show ?thesis
    using first gate by blast
qed

lemma untypedState_inputs: "signInputs untypedState = Some (''doc-1'', ''sig-3'', untypedPng, pdfFile0)"
  by (simp add: signInputs_def falsy_def untypedState_def handleSignatureUpload_def
        handlePdfUpload_def initialState_def currentSignatureBox_def)

lemma untypedState_flag: "hasSignedOnce untypedState = False"
  by (simp add: untypedState_def handleSignatureUpload_def)

theorem C8_embed_by_declared_type_witness:
  "hasSignedOnce untypedState = False
   \<and> signInputs untypedState = Some (''doc-1'', ''sig-3'', untypedPng, pdfFile0)
   \<and> arrayBuffer envJpgFails pdfFile0 = Inr [0x25, 0x50, 0x44, 0x46]
   \<and> arrayBuffer envJpgFails untypedPng = Inr [0x89, 0x50]
   \<and> load envJpgFails [0x25, 0x50, 0x44, 0x46] = Inr \<lparr>doc_pages = [a4, a5]\<rparr>
   \<and> validateImage untypedPng = None
   \<and> signedBlob (handleSignPdf envJpgFails untypedState) = None
   \<and> error (handleSignPdf envJpgFails untypedState) = Some ''SOI not found in JPEG''
   \<and> currentStep (handleSignPdf envJpgFails untypedState) = Preview"
proof -
  have pdf: "arrayBuffer envJpgFails pdfFile0 = Inr [0x25, 0x50, 0x44, 0x46]"
    by (simp add: envJpgFails_def envOk_def pdfFile0_def)
  have sg: "arrayBuffer envJpgFails untypedPng = Inr [0x89, 0x50]"
    by (simp add: envJpgFails_def envOk_def untypedPng_def)
  have ld: "load envJpgFails [0x25, 0x50, 0x44, 0x46] = Inr \<lparr>doc_pages = [a4, a5]\<rparr>"
    by (simp add: envJpgFails_def envOk_def)
  have ok: "validateImage untypedPng = None"
    by (simp add: untypedPng_def validateImage_def toLowerCase_def endsWith_def)
  have blob: "signedBlob untypedState = None"
    by (simp add: untypedState_def handleSignatureUpload_def)
  have ty: "str_includes (file_type untypedPng) ''png'' = False"
    by (simp add: untypedPng_def)
  have jpg: "embedJpg envJpgFails [0x89, 0x50] = Inl ''SOI not found in JPEG''"
    by (simp add: envJpgFails_def)
  show ?thesis
    using C8_embed_by_declared_type [OF untypedState_flag untypedState_inputs pdf sg ld]
      untypedState_flag untypedState_inputs pdf sg ld ok blob
    by (simp add: ty jpg)
qed

section \<open>Stamping twice\<close>

lemma sign_success_state:
  assumes "hasSignedOnce s = False"
    and "signInputs s = Some (docId, sigId, sigFile, pdfFile)"
    and "currentSignatureBox (signatureBoxState s) = Some box"
    and "readAndEmbed env pdfFile sigFile = Inr (pdfDoc, sigImage)"
    and "stampPages env sigImage box (doc_pages pdfDoc) = Inr pages'"
    and "save env (pdfDoc\<lparr>doc_pages := pages'\<rparr>) = Inr out"
  shows "handleSignPdf env s =
     s\<lparr>currentStep := Complete, signingProgress := 100, error := None, isSigning := False,
       signedBlob := Some out, signedPdfUrl := Some out,
       signedDocumentId := (case signPDF env docId sigId of
                              Inl apiErr \<Rightarrow> signedDocumentId s
                            | Inr signedDocId \<Rightarrow> Some signedDocId)\<rparr>"
  using assms
  by (simp add: handleSignPdf_def signTry_def showError_def Let_def split: sum.splits)

lemma stampedOnce_state:
  "stampedOnce =
     readyState\<lparr>currentStep := Complete, signingProgress := 100, error := None,
       isSigning := False, signedBlob := Some [223, 157], signedPdfUrl := Some [223, 157],
       signedDocumentId := Some ''signed-1''\<rparr>"
  unfolding stampedOnce_def
  using sign_success_state [OF readyState_flag readyState_inputs readyState_box
      readAndEmbed_envOk_png, of "[stamped sigPng box0 a4, stamped sigPng box0 a5]" "[223, 157]"]
  by (simp add: stampPages_envOk save_envOk encode_box0 del: stampPages.simps)
     (simp add: envOk_def)

lemma movedAfterStamp_box: "currentSignatureBox (signatureBoxState movedAfterStamp) = Some boxC"
  by (simp add: movedAfterStamp_def stampedOnce_state appSignatureBoxChange_def
        updateSignatureBox_def slice0_def currentSignatureBox_def boxC_def
        readyState_def handleSignatureUpload_def)

lemma movedAfterStamp_inputs:
  "signInputs movedAfterStamp = Some (''doc-1'', ''sig-1'', pngFile0, pdfFile0)"
  using movedAfterStamp_box
  by (simp add: signInputs_def falsy_def)
     (simp add: movedAfterStamp_def stampedOnce_state appSignatureBoxChange_def
        readyState_def handleSignatureUpload_def handlePdfUpload_def initialState_def)

lemma movedAfterStamp_flags:
  "hasSignedOnce movedAfterStamp = False" "isSigning movedAfterStamp = False"
  "signedBlob movedAfterStamp = Some [223, 157]"
  by (simp_all add: movedAfterStamp_def stampedOnce_state appSignatureBoxChange_def
        readyState_def handleSignatureUpload_def)

lemma handleStampPdf_movedAfterStamp:
  "handleStampPdf envOk movedAfterStamp = handleSignPdf envOk movedAfterStamp"
  using movedAfterStamp_box movedAfterStamp_flags
  by (simp add: handleStampPdf_def falsy_def)
     (simp add: movedAfterStamp_def stampedOnce_state appSignatureBoxChange_def
        readyState_def handleSignatureUpload_def handlePdfUpload_def initialState_def)

text \<open>
  C2. \<open>handleSignPdf\<close> never sets \<open>hasSignedOnce\<close>: after a stamp that succeeded the
  flag is still false, and a second press of the Stamp button, with the box put elsewhere
  in between, stamps again and replaces the blob of the first.
\<close>

theorem C2_second_stamp_not_rejected:
  "currentStep stampedOnce = Complete
   \<and> signedBlob stampedOnce = Some [223, 157]
   \<and> hasSignedOnce stampedOnce = False
   \<and> error (handleStampPdf envOk movedAfterStamp) = None
   \<and> signedBlob (handleStampPdf envOk movedAfterStamp) = Some [160, 38]
   \<and> hasSignedOnce (handleStampPdf envOk movedAfterStamp) = False"
  using sign_success [OF movedAfterStamp_flags(1) movedAfterStamp_inputs movedAfterStamp_box
      readAndEmbed_envOk_png, of "[stamped sigPng boxC a4, stamped sigPng boxC a5]" "[160, 38]"]
    hasSignedOnce_handleSignPdf [of envOk movedAfterStamp] movedAfterStamp_flags(1)
  by (simp add: handleStampPdf_movedAfterStamp stampPages_envOk save_envOk encode_boxC
        del: stampPages.simps)
     (simp add: stampedOnce_state readyState_def handleSignatureUpload_def)

section \<open>The box stays on the page\<close>

lemma current_after_update:
  "currentSignatureBox (updateSignatureBox (Some b) p st) = Some b"
  by (auto simp: currentSignatureBox_def updateSignatureBox_def assignAt_def Let_def
        nth_append)

lemma toFixed4_bounds:
  assumes "0 \<le> v" and "v \<le> real_of_int k / 10000" and "v \<le> 1"
  shows "0 \<le> toFixed4 v \<and> toFixed4 v \<le> real_of_int k / 10000"
proof -
  have small: "\<not> 10 ^ 21 \<le> \<bar>v\<bar>"
    using assms(1,3) by simp
  have "v * 10000 + 1 / 2 < real_of_int (k + 1)"
    using assms(2) by simp
  then have "\<lfloor>v * 10000 + 1 / 2\<rfloor> < k + 1"
    by (simp only: floor_less_iff)
  then have up: "\<lfloor>v * 10000 + 1 / 2\<rfloor> \<le> k"
    by simp
  have lo: "0 \<le> \<lfloor>v * 10000 + 1 / 2\<rfloor>"
    using assms(1) by simp
  have eq: "toFixed4 v = real_of_int \<lfloor>v * 10000 + 1 / 2\<rfloor> / 10000"
    using small assms(1) by (simp add: toFixed4_def)
  have "real_of_int 0 \<le> real_of_int \<lfloor>v * 10000 + 1 / 2\<rfloor>"
    and "real_of_int \<lfloor>v * 10000 + 1 / 2\<rfloor> \<le> real_of_int k"
    using lo up by (simp_all only: of_int_le_iff)
  then show ?thesis
    unfolding eq by (simp add: divide_right_mono)
qed

lemma clamp_bounds: "lo \<le> hi \<Longrightarrow> lo \<le> clamp v lo hi \<and> clamp v lo hi \<le> hi"
  by (simp add: clamp_def)

lemma clamp_above: "lo \<le> hi \<Longrightarrow> hi < v \<Longrightarrow> clamp v lo hi = hi"
  by (simp add: clamp_def)

lemma toFixed4_default: "toFixed4 (1 / 4) = 1 / 4" "toFixed4 (3 / 25) = 3 / 25"
  by (simp_all add: toFixed4_def)

lemma click_box_valid:
  "validBox \<lparr>box_x = toFixed4 (clamp (x - 0.25 / 2) 0 (1 - 0.25)),
             box_y = toFixed4 (clamp (y - 0.12 / 2) 0 (1 - 0.12)),
             box_width = toFixed4 0.25, box_height = toFixed4 0.12\<rparr>"
proof -
  have cx: "0 \<le> clamp (x - 0.25 / 2) 0 (1 - 0.25) \<and> clamp (x - 0.25 / 2) 0 (1 - 0.25) \<le> 1 - 0.25"
    by (rule clamp_bounds) simp
  have cy: "0 \<le> clamp (y - 0.12 / 2) 0 (1 - 0.12) \<and> clamp (y - 0.12 / 2) 0 (1 - 0.12) \<le> 1 - 0.12"
    by (rule clamp_bounds) simp
  have fx: "0 \<le> toFixed4 (clamp (x - 0.25 / 2) 0 (1 - 0.25))
      \<and> toFixed4 (clamp (x - 0.25 / 2) 0 (1 - 0.25)) \<le> real_of_int 7500 / 10000"
    using cx by (intro toFixed4_bounds) simp_all
  have fy: "0 \<le> toFixed4 (clamp (y - 0.12 / 2) 0 (1 - 0.12))
      \<and> toFixed4 (clamp (y - 0.12 / 2) 0 (1 - 0.12)) \<le> real_of_int 8800 / 10000"
    using cy by (intro toFixed4_bounds) simp_all
  show ?thesis
    using fx fy by (simp add: validBox_def toFixed4_default)
qed

lemma move_valid:
  assumes "validBox b"
  shows "validBox (b\<lparr>box_x := clamp (box_x b + dx) 0 (1 - box_width b),
                     box_y := clamp (box_y b + dy) 0 (1 - box_height b)\<rparr>)"
  using assms by (auto simp: validBox_def clamp_def)

lemma resize_valid:
  assumes "validBox b"
  shows "validBox (b\<lparr>box_width := clamp (box_width b + dx) 0.05 (1 - box_x b),
                     box_height := clamp (box_height b + dy) 0.03 (1 - box_y b)\<rparr>)"
  using assms by (auto simp: validBox_def clamp_def)

lemma placing_change:
  "placing s \<Longrightarrow> validBox b \<Longrightarrow> placing (appSignatureBoxChange (Some b) p s)"
  by (simp add: placing_def appSignatureBoxChange_def current_after_update)

lemma placing_upload:
  "dragStateRef s0 = None \<Longrightarrow> placing (handleSignatureUpload file sigId s0)"
  by (simp add: placing_def handleSignatureUpload_def currentSignatureBox_def validBox_def
        toFixed4_def)

lemma placing_showError: "placing (showError msg s) = placing s"
  by (simp add: placing_def showError_def)

lemma placing_click:
  assumes "placing s"
    and "handlePageClick (Some appPositionSelect) (placementMode s) (Some appSignatureBoxChange)
           rect event i s = Some s'"
  shows "placing s'"
proof -
  have pm: "placementMode s"
    using assms(1) by (simp add: placing_def)
  show ?thesis
  proof (cases "i = 0")
    case False
    then show ?thesis
      using assms by (auto simp: handlePageClick_def placing_showError)
  next
    case True
    then have "s' = appSignatureBoxChange
        (Some \<lparr>box_x = toFixed4 (clamp ((clientX event - rect_left rect) / rect_width rect - 0.25 / 2) 0 (1 - 0.25)),
               box_y = toFixed4 (clamp ((clientY event - rect_top rect) / rect_height rect - 0.12 / 2) 0 (1 - 0.12)),
               box_width = toFixed4 0.25, box_height = toFixed4 0.12\<rparr>) (Some True) s"
      using assms(2) pm
      by (simp add: handlePageClick_def Let_def appPositionSelect_def split: if_splits)
    then show ?thesis
      using placing_change [OF assms(1) click_box_valid] by simp
  qed
qed

lemma placing_down:
  "placing s \<Longrightarrow>
   placing (handleSignaturePointerDown (placementMode s)
              (currentSignatureBox (signatureBoxState s)) firstPage event mode s)"
  by (auto simp: placing_def handleSignaturePointerDown_def split: option.splits)

lemma placing_move:
  assumes "placing s"
    and "handleSignaturePointerMove (Some appSignatureBoxChange) firstPage event s = Some s'"
  shows "placing s'"
proof (cases "dragStateRef s")
  case None
  then show ?thesis
    using assms by (simp add: handleSignaturePointerMove_def)
next
  case (Some d)
  show ?thesis
  proof (cases "drag_mode d")
    case None
    then show ?thesis
      using assms Some by (simp add: handleSignaturePointerMove_def)
  next
    case mode: (Some m)
    show ?thesis
    proof (cases "drag_startBox d")
      case None
      then show ?thesis
        using assms Some mode by (simp add: handleSignaturePointerMove_def)
    next
      case box: (Some b)
      have vb: "validBox b"
        using assms(1) Some box by (simp add: placing_def)
      show ?thesis
      proof (cases firstPage)
        case None
        then show ?thesis
          using assms Some mode box by (simp add: handleSignaturePointerMove_def)
      next
        case rect: (Some r)
        show ?thesis
        proof (cases m)
          case Move
          then show ?thesis
            using assms Some mode box rect placing_change [OF assms(1) move_valid [OF vb]]
            by (auto simp: handleSignaturePointerMove_def Let_def split: if_splits)
        next
          case Resize
          then show ?thesis
            using assms Some mode box rect placing_change [OF assms(1) resize_valid [OF vb]]
            by (auto simp: handleSignaturePointerMove_def Let_def split: if_splits)
        qed
      qed
    qed
  qed
qed

lemma placing_up:
  assumes "placing s"
  shows "placing (handleSignaturePointerUp (Some appSignatureBoxChange)
                    (currentSignatureBox (signatureBoxState s)) event s)"
proof -
  obtain b where b: "currentSignatureBox (signatureBoxState s) = Some b" and vb: "validBox b"
    using assms by (auto simp: placing_def split: option.splits)
  have drop: "\<And>t. placing t \<Longrightarrow> placing (t\<lparr>dragStateRef := None\<rparr>)"
    by (simp add: placing_def)
  show ?thesis
    using assms placing_change [OF assms vb, of "Some True"] b drop
    by (auto simp: handleSignaturePointerUp_def split: option.splits)
qed

lemma placing_dispatch:
  "placing s \<Longrightarrow> dispatch firstPage e s = Some s' \<Longrightarrow> placing s'"
  by (cases e)
     (auto simp: placing_down placing_up split: if_splits
           dest: placing_click placing_move)

lemma placing_run: "placing s \<Longrightarrow> run es s = Some s' \<Longrightarrow> placing s'"
proof (induction es arbitrary: s)
  case Nil
  then show ?case by simp
next
  case (Cons a es)
  obtain firstPage e where a: "a = (firstPage, e)"
    by (cases a)
  from Cons.prems obtain t where t: "dispatch firstPage e s = Some t" and r: "run es t = Some s'"
    by (auto simp: a split: option.splits)
  have "placing t"
    using Cons.prems(1) t by (rule placing_dispatch)
  then show ?case
    using r by (rule Cons.IH)
qed

lemma move_total:
  assumes "placing s" and "rect_width rect \<noteq> 0" and "rect_height rect \<noteq> 0"
  shows "\<exists>s'. dispatch (Some rect) (OverlayPointerMove 0 event) s = Some s'"
  using assms(2,3)
  by (auto simp: handleSignaturePointerMove_def Let_def
           split: option.splits DragMode.splits)

lemma resize_step:
  assumes "placing s" and "dragStateRef s = Some d" and "drag_mode d = Some Resize"
    and "drag_startBox d = Some sb" and "rect_width rect \<noteq> 0" and "rect_height rect \<noteq> 0"
  shows "dispatch (Some rect) (OverlayPointerMove 0 event) s =
     Some (appSignatureBoxChange
       (Some (sb\<lparr>box_width := clamp (box_width sb + (clientX event - drag_startX d) / rect_width rect)
                                  0.05 (1 - box_x sb),
                  box_height := clamp (box_height sb + (clientY event - drag_startY d) / rect_height rect)
                                  0.03 (1 - box_y sb)\<rparr>))
       (Some False) s)"
proof -
  have "overlayShown s"
    using assms(1) by (auto simp: placing_def overlayShown_def split: option.splits)
  then show ?thesis
    using assms(2-6) by (simp add: handleSignaturePointerMove_def Let_def)
qed

lemma change_current:
  "currentSignatureBox (signatureBoxState (appSignatureBoxChange (Some b) p s)) = Some b"
  by (simp add: appSignatureBoxChange_def current_after_update)

text \<open>
  C4. Take any state reached from a signature upload by any sequence of clicks and
  pointer events, so also a state in the middle of a drag, and the next pointer move on
  the first page (whose rectangle has a size). The move is handled, and the box it
  leaves has \<open>x \<ge> 0\<close>, \<open>y \<ge> 0\<close>, \<open>x + width \<le> 1\<close> and \<open>y + height \<le> 1\<close>. When the
  drag is a resize whose delta would carry the right edge beyond 1, the box keeps its
  \<open>x\<close> and gets the width \<open>1 - x\<close>.
\<close>

theorem C4_clamped_during_drag:
  assumes "dragStateRef s0 = None"
    and "run es (handleSignatureUpload file sigId s0) = Some s"
    and "rect_width rect \<noteq> 0" and "rect_height rect \<noteq> 0"
  shows "\<exists>s' b. dispatch (Some rect) (OverlayPointerMove 0 event) s = Some s'
      \<and> currentSignatureBox (signatureBoxState s') = Some b
      \<and> 0 \<le> box_x b \<and> 0 \<le> box_y b \<and> box_x b + box_width b \<le> 1 \<and> box_y b + box_height b \<le> 1
      \<and> (\<forall>d sb. dragStateRef s = Some d \<and> drag_mode d = Some Resize \<and> drag_startBox d = Some sb
              \<and> 1 - box_x sb < box_width sb + (clientX event - drag_startX d) / rect_width rect
            \<longrightarrow> box_x b = box_x sb \<and> box_width b = 1 - box_x sb)"
proof -
  have ps: "placing s"
    using placing_upload [OF assms(1)] assms(2) by (rule placing_run)
  obtain s' where s': "dispatch (Some rect) (OverlayPointerMove 0 event) s = Some s'"
    using move_total [OF ps assms(3,4)] by blast
  have ps': "placing s'"
    using ps s' by (rule placing_dispatch)
  then obtain b where b: "currentSignatureBox (signatureBoxState s') = Some b" and vb: "validBox b"
    by (auto simp: placing_def split: option.splits)
  have edge: "box_x b = box_x sb \<and> box_width b = 1 - box_x sb"
    if d: "dragStateRef s = Some d" and m: "drag_mode d = Some Resize"
      and sb: "drag_startBox d = Some sb"
      and over: "1 - box_x sb < box_width sb + (clientX event - drag_startX d) / rect_width rect"
    for d sb
  proof -
    have "validBox sb"
      using ps d sb by (simp add: placing_def)
    then have lo: "0.05 \<le> 1 - box_x sb"
      by (simp add: validBox_def)
    let ?r = "sb\<lparr>box_width := clamp (box_width sb + (clientX event - drag_startX d) / rect_width rect)
                                  0.05 (1 - box_x sb),
                  box_height := clamp (box_height sb + (clientY event - drag_startY d) / rect_height rect)
                                  0.03 (1 - box_y sb)\<rparr>"
    have "Some s' = Some (appSignatureBoxChange (Some ?r) (Some False) s)"
      using resize_step [OF ps d m sb assms(3,4), of event] s' by (simp only:)
    then have "currentSignatureBox (signatureBoxState s') = Some ?r"
      by (simp only: option.inject change_current)
    then have "b = ?r"
      using b by simp
    moreover have "clamp (box_width sb + (clientX event - drag_startX d) / rect_width rect)
        0.05 (1 - box_x sb) = 1 - box_x sb"
      using lo over by (rule clamp_above)
    ultimately show ?thesis
      by simp
  qed
  show ?thesis
    using s' b vb edge by (auto simp: validBox_def)
qed

lemma run_toCorner: "run toCorner readyState = Some atCorner"
  by (simp add: toCorner_def atCorner_def readyState_def handleSignatureUpload_def
        handlePdfUpload_def initialState_def page1000_def ptr_def smallBox_def cornerBox_def
        overlayShown_def currentSignatureBox_def handleSignaturePointerDown_def
        handleSignaturePointerMove_def handleSignaturePointerUp_def appSignatureBoxChange_def
        updateSignatureBox_def slice0_def assignAt_def clamp_def toFixed4_def Let_def)

lemma atCorner_resize:
  "dispatch (Some page1000) (OverlayPointerMove 0 (ptr 1295 895)) atCorner
     = Some (atCorner\<lparr>signatureBoxState :=
               \<lparr>history = [Some smallBox, Some cornerBox, Some edgeBox], index = 2\<rparr>\<rparr>)"
  by (simp add: atCorner_def readyState_def handleSignatureUpload_def
        handlePdfUpload_def initialState_def page1000_def ptr_def smallBox_def cornerBox_def
        edgeBox_def overlayShown_def currentSignatureBox_def
        handleSignaturePointerMove_def appSignatureBoxChange_def
        updateSignatureBox_def assignAt_def clamp_def Let_def)

theorem C4_clamped_during_drag_witness:
  "dragStateRef (handlePdfUpload pdfFile0 ''doc-1'' initialState) = None
   \<and> run toCorner (handleSignatureUpload pngFile0 ''sig-1''
                     (handlePdfUpload pdfFile0 ''doc-1'' initialState)) = Some atCorner
   \<and> rect_width page1000 \<noteq> 0 \<and> rect_height page1000 \<noteq> 0
   \<and> dragStateRef atCorner
       = Some \<lparr>drag_mode = Some Resize, drag_pointerId = Some 1, drag_startX = 895,
                drag_startY = 895, drag_startBox = Some cornerBox\<rparr>
   \<and> 1 - box_x cornerBox < box_width cornerBox + (clientX (ptr 1295 895) - 895) / rect_width page1000
   \<and> dispatch (Some page1000) (OverlayPointerMove 0 (ptr 1295 895)) atCorner
       = Some (atCorner\<lparr>signatureBoxState :=
                 \<lparr>history = [Some smallBox, Some cornerBox, Some edgeBox], index = 2\<rparr>\<rparr>)
   \<and> currentSignatureBox \<lparr>history = [Some smallBox, Some cornerBox, Some edgeBox], index = 2\<rparr>
       = Some \<lparr>box_x = 0.8, box_y = 0.8, box_width = 0.2, box_height = 0.1\<rparr>"
proof -
  have h1: "dragStateRef (handlePdfUpload pdfFile0 ''doc-1'' initialState) = None"
    by (simp add: handlePdfUpload_def initialState_def)
  have h2: "run toCorner (handleSignatureUpload pngFile0 ''sig-1''
                     (handlePdfUpload pdfFile0 ''doc-1'' initialState)) = Some atCorner"
    using run_toCorner by (simp only: readyState_def)
  have h3: "rect_width page1000 \<noteq> 0" and h4: "rect_height page1000 \<noteq> 0"
    by (simp_all add: page1000_def)
  have d: "dragStateRef atCorner
       = Some \<lparr>drag_mode = Some Resize, drag_pointerId = Some 1, drag_startX = 895,
                drag_startY = 895, drag_startBox = Some cornerBox\<rparr>"
    by (simp add: atCorner_def)
  have over: "1 - box_x cornerBox
      < box_width cornerBox + (clientX (ptr 1295 895) - 895) / rect_width page1000"
    by (simp add: cornerBox_def ptr_def page1000_def)
  have cur: "currentSignatureBox \<lparr>history = [Some smallBox, Some cornerBox, Some edgeBox], index = 2\<rparr>
       = Some \<lparr>box_x = 0.8, box_y = 0.8, box_width = 0.2, box_height = 0.1\<rparr>"
    by (simp add: currentSignatureBox_def edgeBox_def)
  show ?thesis
    using C4_clamped_during_drag [OF h1 h2 h3 h4, of "ptr 1295 895"] h1 h2 h3 h4 d over
      atCorner_resize cur
    by blast
qed

section \<open>A drag from the default box\<close>

lemma upload_state:
  "signatureBoxState (handleSignatureUpload file sigId s0) = \<lparr>history = [Some box0], index = 0\<rparr>"
  "placementMode (handleSignatureUpload file sigId s0)"
  "signaturePreviewUrl (handleSignatureUpload file sigId s0) = Some file"
  by (simp_all add: handleSignatureUpload_def toFixed4_def box0_def)

text \<open>
  The three pointer handlers alone, before the click that follows the release: from the
  default box, a pointer down on the overlay, a move whose delta is 0.1 of the page's
  width and -0.05 of its height, and a pointer up leave the box (0.475, 0.39, 0.25, 0.12)
  as the current one, in a history of two entries with the index at the second.
\<close>

lemma move_handlers_alone:
  assumes "rect_width rect \<noteq> 0" and "rect_height rect \<noteq> 0"
    and "clientX mv = clientX dn + 0.1 * rect_width rect"
    and "clientY mv = clientY dn + (- 0.05) * rect_height rect"
  shows "currentSignatureBox (signatureBoxState (handleSignatureUpload file sigId s0))
           = Some \<lparr>box_x = 0.375, box_y = 0.44, box_width = 0.25, box_height = 0.12\<rparr>
       \<and> map_option signatureBoxState
           (run [(Some rect, OverlayPointerDown 0 dn), (Some rect, OverlayPointerMove 0 mv),
                 (Some rect, OverlayPointerUp 0 up)]
              (handleSignatureUpload file sigId s0))
           = Some \<lparr>history =
                     [Some \<lparr>box_x = 0.475, box_y = 0.39, box_width = 0.25, box_height = 0.12\<rparr>,
                      Some \<lparr>box_x = 0.475, box_y = 0.39, box_width = 0.25, box_height = 0.12\<rparr>],
                    index = 1\<rparr>
       \<and> currentSignatureBox
            \<lparr>history =
               [Some \<lparr>box_x = 0.475, box_y = 0.39, box_width = 0.25, box_height = 0.12\<rparr>,
                Some \<lparr>box_x = 0.475, box_y = 0.39, box_width = 0.25, box_height = 0.12\<rparr>],
             index = 1\<rparr>
           = Some \<lparr>box_x = 0.475, box_y = 0.39, box_width = 0.25, box_height = 0.12\<rparr>"
proof -
  let ?s1 = "handleSignatureUpload file sigId s0"
  let ?d = "\<lparr>drag_mode = Some Move, drag_pointerId = Some (pointerId dn),
             drag_startX = clientX dn, drag_startY = clientY dn, drag_startBox = Some box0\<rparr>"
  let ?s2 = "?s1\<lparr>dragStateRef := Some ?d\<rparr>"
  let ?s3 = "?s2\<lparr>signatureBoxState := \<lparr>history = [Some movedBox], index = 0\<rparr>\<rparr>"
  let ?s4 = "?s3\<lparr>signatureBoxState := \<lparr>history = [Some movedBox, Some movedBox], index = 1\<rparr>,
                   dragStateRef := None\<rparr>"
  have cur1: "currentSignatureBox (signatureBoxState ?s1) = Some box0"
    by (simp add: upload_state currentSignatureBox_def)
  have shown1: "overlayShown ?s1"
    using cur1 by (simp add: overlayShown_def upload_state(3))
  have down: "dispatch (Some rect) (OverlayPointerDown 0 dn) ?s1 = Some ?s2"
    using shown1 cur1 by (simp add: handleSignaturePointerDown_def upload_state(2))
  have shown2: "overlayShown ?s2"
    using shown1 by (simp add: overlayShown_def)
  have dx: "(clientX mv - clientX dn) / rect_width rect = 0.1"
    and dy: "(clientY mv - clientY dn) / rect_height rect = - 0.05"
    using assms by simp_all
  have move: "dispatch (Some rect) (OverlayPointerMove 0 mv) ?s2 = Some ?s3"
    using shown2 assms(1,2)
    by (simp add: handleSignaturePointerMove_def Let_def dx dy appSignatureBoxChange_def
          upload_state updateSignatureBox_def assignAt_def)
       (simp add: box0_def movedBox_def clamp_def)
  have cur3: "currentSignatureBox (signatureBoxState ?s3) = Some movedBox"
    by (simp add: currentSignatureBox_def)
  have shown3: "overlayShown ?s3"
    using cur3 by (simp add: overlayShown_def upload_state(3))
  have up: "dispatch (Some rect) (OverlayPointerUp 0 up) ?s3 = Some ?s4"
    using shown3 cur3
    by (simp add: handleSignaturePointerUp_def appSignatureBoxChange_def updateSignatureBox_def
          slice0_def)
  have "run [(Some rect, OverlayPointerDown 0 dn), (Some rect, OverlayPointerMove 0 mv),
             (Some rect, OverlayPointerUp 0 up)] ?s1 = Some ?s4"
    using down move up by (simp del: dispatch.simps)
  then show ?thesis
    using cur1 by (simp add: box0_def movedBox_def currentSignatureBox_def del: run.simps)
qed

text \<open>
  C7. A completed move drag by (0.1, -0.05) from the default box does not end with the
  moved box. The pointer up commits (0.475, 0.39, 0.25, 0.12) in a history of two
  entries, and the click that the release delivers to the first page then runs
  \<open>handlePageClick\<close>, which pushes a box of the default size centred on the point of
  release: the history has three entries and the current box is (0.375, 0.34, 0.25, 0.12).
\<close>

theorem C7_drag_ends_with_click:
  "map_option signatureBoxState (run (butlast moveDrag) readyState)
     = Some \<lparr>history = [Some movedBox, Some movedBox], index = 1\<rparr>
   \<and> map_option signatureBoxState (run moveDrag readyState)
       = Some \<lparr>history = [Some movedBox, Some movedBox, Some recentredBox], index = 2\<rparr>
   \<and> currentSignatureBox \<lparr>history = [Some movedBox, Some movedBox, Some recentredBox], index = 2\<rparr>
       = Some \<lparr>box_x = 0.375, box_y = 0.34, box_width = 0.25, box_height = 0.12\<rparr>
   \<and> length [Some movedBox, Some movedBox, Some recentredBox] = 3"
  by (simp add: moveDrag_def readyState_def handleSignatureUpload_def
        handlePdfUpload_def initialState_def page1000_def ptr_def box0_def movedBox_def
        recentredBox_def overlayShown_def currentSignatureBox_def handleSignaturePointerDown_def
        handleSignaturePointerMove_def handleSignaturePointerUp_def handlePageClick_def
        appSignatureBoxChange_def appPositionSelect_def
        updateSignatureBox_def slice0_def assignAt_def clamp_def toFixed4_def Let_def)

section \<open>What a drag does to the history\<close>

text \<open>
  C6, as stated, fails: after a pointer down and one pointer move on the default box
  the only entry of the history is the moved box, no longer the default one.
\<close>

theorem C6_history_modified_counterexample:
  "history (signatureBoxState readyState) = [Some box0]
   \<and> map_option (\<lambda>s. history (signatureBoxState s)) (run halfDrag readyState) = Some [Some movedBox]
   \<and> box_x box0 < box_x movedBox"
  by (simp add: halfDrag_def readyState_def handleSignatureUpload_def
        handlePdfUpload_def initialState_def page1000_def ptr_def box0_def movedBox_def
        overlayShown_def currentSignatureBox_def handleSignaturePointerDown_def
        handleSignaturePointerMove_def appSignatureBoxChange_def
        updateSignatureBox_def assignAt_def clamp_def toFixed4_def Let_def)

lemma normalizedBox_same:
  "\<lparr>box_x = box_x b, box_y = box_y b, box_width = box_width b, box_height = box_height b\<rparr> = b"
  by (cases b) simp

lemma overwrite_in_place:
  "0 \<le> index st \<Longrightarrow> index st < int (length (history st)) \<Longrightarrow>
   updateSignatureBox (Some b) False st =
     \<lparr>history = (history st)[nat (index st) := Some b], index = index st\<rparr>"
  by (auto simp: updateSignatureBox_def assignAt_def Let_def normalizedBox_same)

lemma placing_index:
  assumes "placing s"
  shows "0 \<le> index (signatureBoxState s)
       \<and> index (signatureBoxState s) < int (length (history (signatureBoxState s)))
       \<and> history (signatureBoxState s) ! nat (index (signatureBoxState s))
           = currentSignatureBox (signatureBoxState s)"
  using assms by (auto simp: placing_def currentSignatureBox_def split: option.splits if_splits)

lemma move_cases:
  assumes "rect_width rect \<noteq> 0" and "rect_height rect \<noteq> 0"
  shows "dispatch (Some rect) (OverlayPointerMove 0 event) s = Some s
       \<or> (\<exists>b. dispatch (Some rect) (OverlayPointerMove 0 event) s
                 = Some (appSignatureBoxChange (Some b) (Some False) s))"
  using assms
  by (auto simp: handleSignaturePointerMove_def Let_def split: option.splits DragMode.splits)

lemma dragStarted_upload:
  "dragStateRef s0 = None \<Longrightarrow> dragStarted (handleSignatureUpload file sigId s0)"
  by (simp add: dragStarted_def handleSignatureUpload_def)

lemma dragStateRef_change:
  "dragStateRef (appSignatureBoxChange box options s) = dragStateRef s"
  by (simp add: appSignatureBoxChange_def)

lemma dragStarted_same: "dragStateRef t = dragStateRef s \<Longrightarrow> dragStarted t = dragStarted s"
  by (simp add: dragStarted_def)

lemma dragStateRef_click:
  "handlePageClick (Some appPositionSelect) placement (Some appSignatureBoxChange) rect event i s
     = Some s' \<Longrightarrow> dragStateRef s' = dragStateRef s"
  by (auto simp: handlePageClick_def Let_def appPositionSelect_def showError_def
        dragStateRef_change split: if_splits)

lemma dragStateRef_move:
  "handleSignaturePointerMove (Some appSignatureBoxChange) firstPage event s = Some s'
   \<Longrightarrow> dragStateRef s' = dragStateRef s"
  by (auto simp: handleSignaturePointerMove_def Let_def dragStateRef_change
        split: option.splits if_splits DragMode.splits)

lemma dragStarted_down:
  "dragStarted s \<Longrightarrow>
   dragStarted (handleSignaturePointerDown placement signatureBox firstPage event mode s)"
  by (auto simp: dragStarted_def handleSignaturePointerDown_def split: option.splits)

lemma dragStarted_up:
  "dragStarted (handleSignaturePointerUp onSignatureBoxChange signatureBox event s)"
  by (auto simp: dragStarted_def handleSignaturePointerUp_def split: option.splits)

lemma dragStarted_dispatch:
  assumes "dragStarted s" and "dispatch firstPage e s = Some s'"
  shows "dragStarted s'"
proof (cases e)
  case (PageClick i rect event)
  then show ?thesis
    using assms dragStarted_same [OF dragStateRef_click] by auto
next
  case (OverlayPointerDown i event)
  then show ?thesis
    using assms dragStarted_down by (auto split: if_splits)
next
  case (ResizeHandlePointerDown i event)
  then show ?thesis
    using assms dragStarted_down by (auto split: if_splits)
next
  case (OverlayPointerMove i event)
  then show ?thesis
    using assms dragStarted_same [OF dragStateRef_move] by (auto split: if_splits)
next
  case (OverlayPointerUp i event)
  then show ?thesis
    using assms dragStarted_up by (auto split: if_splits)
qed

lemma dragStarted_run: "dragStarted s \<Longrightarrow> run es s = Some s' \<Longrightarrow> dragStarted s'"
proof (induction es arbitrary: s)
  case Nil
  then show ?case by simp
next
  case (Cons a es)
  obtain firstPage e where a: "a = (firstPage, e)"
    by (cases a)
  from Cons.prems obtain t where t: "dispatch firstPage e s = Some t" and r: "run es t = Some s'"
    by (auto simp: a split: option.splits)
  have "dragStarted t"
    using Cons.prems(1) t by (rule dragStarted_dispatch)
  then show ?case
    using r by (rule Cons.IH)
qed

lemma move_idle:
  "dragStateRef s = None \<Longrightarrow> dispatch firstPage (OverlayPointerMove 0 event) s = Some s"
  by (simp add: handleSignaturePointerMove_def)

lemma move_step:
  assumes "placing s" and "dragStateRef s = Some d" and "drag_mode d = Some m"
    and "drag_startBox d = Some sb" and "rect_width rect \<noteq> 0" and "rect_height rect \<noteq> 0"
  shows "dispatch (Some rect) (OverlayPointerMove 0 event) s =
     Some (appSignatureBoxChange
       (Some (case m of
                Move \<Rightarrow>
                  sb\<lparr>box_x := clamp (box_x sb + (clientX event - drag_startX d) / rect_width rect)
                                0 (1 - box_width sb),
                     box_y := clamp (box_y sb + (clientY event - drag_startY d) / rect_height rect)
                                0 (1 - box_height sb)\<rparr>
              | Resize \<Rightarrow>
                  sb\<lparr>box_width := clamp (box_width sb + (clientX event - drag_startX d) / rect_width rect)
                                    0.05 (1 - box_x sb),
                     box_height := clamp (box_height sb + (clientY event - drag_startY d) / rect_height rect)
                                     0.03 (1 - box_y sb)\<rparr>))
       (Some False) s)"
proof -
  have "overlayShown s"
    using assms(1) by (auto simp: placing_def overlayShown_def split: option.splits)
  then show ?thesis
    using assms(2-6) by (cases m) (simp_all add: handleSignaturePointerMove_def Let_def)
qed

text \<open>
  C6, amended. In every state reached from a signature upload, a pointer move on the
  first page during a drag computes a box from the start box of the drag and the delta
  (moved, or resized, and clamped) and writes it over the entry at the index, where it
  is the current box: the history keeps its length, its other entries and its index,
  and no entry is added. Without a drag the move changes nothing. A pointer up during
  a drag appends exactly one entry, the current box, after the index, moves the index
  to it and ends the drag.
\<close>

theorem C6_move_overwrites_up_pushes:
  assumes "dragStateRef s0 = None"
    and "run es (handleSignatureUpload file sigId s0) = Some s"
    and "rect_width rect \<noteq> 0" and "rect_height rect \<noteq> 0"
  shows "(\<exists>s'. dispatch (Some rect) (OverlayPointerMove 0 event) s = Some s'
            \<and> history (signatureBoxState s')
                = (history (signatureBoxState s))
                    [nat (index (signatureBoxState s)) := currentSignatureBox (signatureBoxState s')]
            \<and> index (signatureBoxState s') = index (signatureBoxState s)
            \<and> (dragStateRef s = None \<longrightarrow> s' = s)
            \<and> (\<forall>d. dragStateRef s = Some d \<longrightarrow>
                 (\<exists>m sb. drag_mode d = Some m \<and> drag_startBox d = Some sb
                    \<and> currentSignatureBox (signatureBoxState s')
                        = Some (case m of
                            Move \<Rightarrow>
                              sb\<lparr>box_x := clamp (box_x sb + (clientX event - drag_startX d) / rect_width rect)
                                            0 (1 - box_width sb),
                                 box_y := clamp (box_y sb + (clientY event - drag_startY d) / rect_height rect)
                                            0 (1 - box_height sb)\<rparr>
                          | Resize \<Rightarrow>
                              sb\<lparr>box_width := clamp (box_width sb + (clientX event - drag_startX d) / rect_width rect)
                                                0.05 (1 - box_x sb),
                                 box_height := clamp (box_height sb + (clientY event - drag_startY d) / rect_height rect)
                                                 0.03 (1 - box_y sb)\<rparr>))))
       \<and> (\<forall>d. dragStateRef s = Some d \<longrightarrow>
            (\<exists>s'. dispatch firstPage (OverlayPointerUp 0 event) s = Some s'
               \<and> history (signatureBoxState s')
                   = take (nat (index (signatureBoxState s)) + 1) (history (signatureBoxState s))
                     @ [currentSignatureBox (signatureBoxState s)]
               \<and> index (signatureBoxState s') = index (signatureBoxState s) + 1
               \<and> dragStateRef s' = None))"
proof -
  let ?st = "signatureBoxState s"
  have ps: "placing s"
    using placing_upload [OF assms(1)] assms(2) by (rule placing_run)
  have ds: "dragStarted s"
    using dragStarted_upload [OF assms(1)] assms(2) by (rule dragStarted_run)
  note ix = placing_index [OF ps]
  have lo: "0 \<le> index ?st" and hi: "index ?st < int (length (history ?st))"
    and nth: "history ?st ! nat (index ?st) = currentSignatureBox ?st"
    using ix by simp_all
  have started: "\<exists>m sb. drag_mode d = Some m \<and> drag_startBox d = Some sb"
    if "dragStateRef s = Some d" for d
    using ds that by (auto simp: dragStarted_def split: option.splits)
  have move: "\<exists>s'. dispatch (Some rect) (OverlayPointerMove 0 event) s = Some s'
            \<and> history (signatureBoxState s')
                = (history ?st)[nat (index ?st) := currentSignatureBox (signatureBoxState s')]
            \<and> index (signatureBoxState s') = index ?st
            \<and> (dragStateRef s = None \<longrightarrow> s' = s)
            \<and> (\<forall>d. dragStateRef s = Some d \<longrightarrow>
                 (\<exists>m sb. drag_mode d = Some m \<and> drag_startBox d = Some sb
                    \<and> currentSignatureBox (signatureBoxState s')
                        = Some (case m of
                            Move \<Rightarrow>
                              sb\<lparr>box_x := clamp (box_x sb + (clientX event - drag_startX d) / rect_width rect)
                                            0 (1 - box_width sb),
                                 box_y := clamp (box_y sb + (clientY event - drag_startY d) / rect_height rect)
                                            0 (1 - box_height sb)\<rparr>
                          | Resize \<Rightarrow>
                              sb\<lparr>box_width := clamp (box_width sb + (clientX event - drag_startX d) / rect_width rect)
                                                0.05 (1 - box_x sb),
                                 box_height := clamp (box_height sb + (clientY event - drag_startY d) / rect_height rect)
                                                 0.03 (1 - box_y sb)\<rparr>)))"
  proof (cases "dragStateRef s")
    case None
    have same: "dispatch (Some rect) (OverlayPointerMove 0 event) s = Some s"
      using None by (rule move_idle)
    have "(history ?st)[nat (index ?st) := currentSignatureBox ?st] = history ?st"
      using nth [symmetric] by (simp only: list_update_id)
    then show ?thesis
      using same None by simp
  next
    case (Some d)
    obtain m sb where m: "drag_mode d = Some m" and sb: "drag_startBox d = Some sb"
      using started [OF Some] by blast
    let ?b = "case m of
                Move \<Rightarrow>
                  sb\<lparr>box_x := clamp (box_x sb + (clientX event - drag_startX d) / rect_width rect)
                                0 (1 - box_width sb),
                     box_y := clamp (box_y sb + (clientY event - drag_startY d) / rect_height rect)
                                0 (1 - box_height sb)\<rparr>
              | Resize \<Rightarrow>
                  sb\<lparr>box_width := clamp (box_width sb + (clientX event - drag_startX d) / rect_width rect)
                                    0.05 (1 - box_x sb),
                     box_height := clamp (box_height sb + (clientY event - drag_startY d) / rect_height rect)
                                     0.03 (1 - box_y sb)\<rparr>"
    let ?s' = "appSignatureBoxChange (Some ?b) (Some False) s"
    have step: "dispatch (Some rect) (OverlayPointerMove 0 event) s = Some ?s'"
      using ps Some m sb assms(3,4) by (rule move_step)
    have st': "signatureBoxState ?s'
        = \<lparr>history = (history ?st)[nat (index ?st) := Some ?b], index = index ?st\<rparr>"
      using overwrite_in_place [OF lo hi, of ?b] by (simp add: appSignatureBoxChange_def)
    have cur: "currentSignatureBox (signatureBoxState ?s') = Some ?b"
      by (rule change_current)
    have hist: "history (signatureBoxState ?s')
        = (history ?st)[nat (index ?st) := currentSignatureBox (signatureBoxState ?s')]"
      unfolding cur by (simp add: st')
    have idx: "index (signatureBoxState ?s') = index ?st"
      by (simp add: st')
    show ?thesis
      using step hist idx cur Some m sb by (intro exI [of _ ?s']) simp
  qed
  have up: "\<exists>s'. dispatch firstPage (OverlayPointerUp 0 event) s = Some s'
               \<and> history (signatureBoxState s')
                   = take (nat (index ?st) + 1) (history ?st) @ [currentSignatureBox ?st]
               \<and> index (signatureBoxState s') = index ?st + 1
               \<and> dragStateRef s' = None"
    if d: "dragStateRef s = Some d" for d
  proof -
    obtain m where m: "drag_mode d = Some m"
      using started [OF d] by blast
    obtain b where b: "currentSignatureBox ?st = Some b"
      using ps by (auto simp: placing_def split: option.splits)
    have shown: "overlayShown s"
      using ps b by (simp add: placing_def overlayShown_def)
    have "dispatch firstPage (OverlayPointerUp 0 event) s
        = Some ((appSignatureBoxChange (Some b) (Some True) s)\<lparr>dragStateRef := None\<rparr>)"
      using shown d m b by (simp add: handleSignaturePointerUp_def)
    moreover have "signatureBoxState (appSignatureBoxChange (Some b) (Some True) s)
        = \<lparr>history = take (nat (index ?st) + 1) (history ?st) @ [Some b], index = index ?st + 1\<rparr>"
      using push_truncates [OF lo hi, of b] by (simp add: appSignatureBoxChange_def)
    ultimately show ?thesis
      using b by simp
  qed
  show ?thesis
    using move up by blast
qed

lemma run_halfDrag: "run halfDrag readyState = Some midDrag"
  by (simp add: halfDrag_def midDrag_def readyState_def handleSignatureUpload_def
        handlePdfUpload_def initialState_def page1000_def ptr_def box0_def movedBox_def
        overlayShown_def currentSignatureBox_def handleSignaturePointerDown_def
        handleSignaturePointerMove_def appSignatureBoxChange_def
        updateSignatureBox_def assignAt_def clamp_def toFixed4_def Let_def)

lemma midDrag_move:
  "dispatch (Some page1000) (OverlayPointerMove 0 (ptr 450 500)) midDrag
     = Some (midDrag\<lparr>signatureBoxState := \<lparr>history = [Some laterBox], index = 0\<rparr>\<rparr>)"
  by (simp add: midDrag_def readyState_def handleSignatureUpload_def
        handlePdfUpload_def initialState_def page1000_def ptr_def box0_def movedBox_def
        laterBox_def overlayShown_def currentSignatureBox_def
        handleSignaturePointerMove_def appSignatureBoxChange_def
        updateSignatureBox_def assignAt_def clamp_def Let_def)

lemma midDrag_up:
  "dispatch (Some page1000) (OverlayPointerUp 0 (ptr 450 500)) midDrag
     = Some (midDrag\<lparr>signatureBoxState := \<lparr>history = [Some movedBox, Some movedBox], index = 1\<rparr>,
                      dragStateRef := None\<rparr>)"
  by (simp add: midDrag_def readyState_def handleSignatureUpload_def
        handlePdfUpload_def initialState_def movedBox_def
        overlayShown_def currentSignatureBox_def
        handleSignaturePointerUp_def appSignatureBoxChange_def
        updateSignatureBox_def slice0_def Let_def)

theorem C6_move_overwrites_up_pushes_witness:
  "dragStateRef (handlePdfUpload pdfFile0 ''doc-1'' initialState) = None
   \<and> run halfDrag (handleSignatureUpload pngFile0 ''sig-1''
                     (handlePdfUpload pdfFile0 ''doc-1'' initialState)) = Some midDrag
   \<and> rect_width page1000 \<noteq> 0 \<and> rect_height page1000 \<noteq> 0
   \<and> signatureBoxState midDrag = \<lparr>history = [Some movedBox], index = 0\<rparr>
   \<and> dispatch (Some page1000) (OverlayPointerMove 0 (ptr 450 500)) midDrag
       = Some (midDrag\<lparr>signatureBoxState := \<lparr>history = [Some laterBox], index = 0\<rparr>\<rparr>)
   \<and> dispatch (Some page1000) (OverlayPointerUp 0 (ptr 450 500)) midDrag
       = Some (midDrag\<lparr>signatureBoxState := \<lparr>history = [Some movedBox, Some movedBox], index = 1\<rparr>,
                        dragStateRef := None\<rparr>)"
proof -
  have h1: "dragStateRef (handlePdfUpload pdfFile0 ''doc-1'' initialState) = None"
    by (simp add: handlePdfUpload_def initialState_def)
  have h2: "run halfDrag (handleSignatureUpload pngFile0 ''sig-1''
                     (handlePdfUpload pdfFile0 ''doc-1'' initialState)) = Some midDrag"
    using run_halfDrag by (simp only: readyState_def)
  have h3: "rect_width page1000 \<noteq> 0" and h4: "rect_height page1000 \<noteq> 0"
    by (simp_all add: page1000_def)
  have st: "signatureBoxState midDrag = \<lparr>history = [Some movedBox], index = 0\<rparr>"
    by (simp add: midDrag_def)
  show ?thesis
    using C6_move_overwrites_up_pushes [OF h1 h2 h3 h4, of "ptr 450 500" "Some page1000"]
      h1 h2 h3 h4 st midDrag_move midDrag_up
    by blast
qed

section \<open>Events on other pages\<close>

lemma dispatch_other_page:
  "eventPage e \<noteq> 0 \<Longrightarrow>
   dispatch firstPage e s =
     Some (if isPageClick e
           then showError ''Hey! Signature positioning should be done only on the first page.'' s
           else s)"
  by (cases e) (simp_all add: handlePageClick_def)

lemma click_other_page:
  "i \<noteq> 0 \<Longrightarrow>
   handlePageClick onPositionSelect placement onSignatureBoxChange rect event i s
     = (if onPositionSelect = None \<and> (placement \<and> onSignatureBoxChange \<noteq> None) = False
        then Some s
        else Some (showError
               ''Hey! Signature positioning should be done only on the first page.'' s))"
  by (simp add: handlePageClick_def)

text \<open>
  C10. A sequence of events none of which is on the first page changes nothing but the
  error messages shown, one for each click: the box, the history, the index and the
  drag state are as before. For the click handler alone, with any callbacks: on a page
  other than the first it returns the state unchanged, or with the one message added.
\<close>

theorem C10_other_pages_leave_box:
  assumes "list_all (\<lambda>(firstPage, e). eventPage e \<noteq> 0) es"
  shows "run es s =
      Some (s\<lparr>errorToasts := errorToasts s @
                replicate (length (filter (\<lambda>(firstPage, e). isPageClick e) es))
                  ''Hey! Signature positioning should be done only on the first page.''\<rparr>)
    \<and> (\<forall>onPositionSelect placement onSignatureBoxChange rect event i.
          i \<noteq> 0 \<longrightarrow>
            handlePageClick onPositionSelect placement onSignatureBoxChange rect event i s
              = (if onPositionSelect = None \<and> (placement \<and> onSignatureBoxChange \<noteq> None) = False
                 then Some s
                 else Some (showError
                        ''Hey! Signature positioning should be done only on the first page.'' s)))"
proof -
  let ?msg = "''Hey! Signature positioning should be done only on the first page.''"
  have "run es s =
      Some (s\<lparr>errorToasts := errorToasts s @
                replicate (length (filter (\<lambda>(firstPage, e). isPageClick e) es)) ?msg\<rparr>)"
    using assms
  proof (induction es arbitrary: s)
    case Nil
    then show ?case by simp
  next
    case (Cons a es)
    obtain firstPage e where a: "a = (firstPage, e)"
      by (cases a)
    have page: "eventPage e \<noteq> 0" and rest: "list_all (\<lambda>(firstPage, e). eventPage e \<noteq> 0) es"
      using Cons.prems by (simp_all add: a)
    show ?case
    proof (cases "isPageClick e")
      case True
      then show ?thesis
        using dispatch_other_page [OF page, of firstPage s] Cons.IH [OF rest, of "showError ?msg s"]
        by (simp add: a showError_def replicate_append_same del: dispatch.simps)
    next
      case False
      then show ?thesis
        using dispatch_other_page [OF page, of firstPage s] Cons.IH [OF rest, of s]
        by (simp add: a del: dispatch.simps)
    qed
  qed
  moreover have "\<forall>onPositionSelect placement onSignatureBoxChange rect event i.
          i \<noteq> 0 \<longrightarrow>
            handlePageClick onPositionSelect placement onSignatureBoxChange rect event i s
              = (if onPositionSelect = None \<and> (placement \<and> onSignatureBoxChange \<noteq> None) = False
                 then Some s
                 else Some (showError ?msg s))"
    using click_other_page by blast
  ultimately show ?thesis
    by blast
qed

theorem C10_other_pages_leave_box_witness:
  "list_all (\<lambda>(firstPage, e). eventPage e \<noteq> 0) otherPages
   \<and> run otherPages midDrag
       = Some (midDrag\<lparr>errorToasts :=
                 [''Hey! Signature positioning should be done only on the first page.'']\<rparr>)
   \<and> signatureBoxState
        (midDrag\<lparr>errorToasts :=
           [''Hey! Signature positioning should be done only on the first page.'']\<rparr>)
       = signatureBoxState midDrag"
proof -
  have h: "list_all (\<lambda>(firstPage, e). eventPage e \<noteq> 0) otherPages"
    by (simp add: otherPages_def)
  have n: "length (filter (\<lambda>(firstPage, e). isPageClick e) otherPages) = 1"
    by (simp add: otherPages_def)
  have t: "errorToasts midDrag = []"
    by (simp add: midDrag_def readyState_def handleSignatureUpload_def handlePdfUpload_def
          initialState_def)
  show ?thesis
    using C10_other_pages_leave_box [OF h, of midDrag] h
    by (simp add: n t del: run.simps)
qed

end
